theory Spec2Isabelle
  imports Main "HOL-Library.Word" "HOL-Library.Multiset" "HOL-Library.Char_ord"
    "HOL-Library.List_Lexorder"
begin

chapter \<open>The model\<close>

section \<open>The outside world: HTTP, clock, environment\<close>

text \<open>
  The data-acquisition layer talks to a remote service through the shared client
  \<^verbatim>\<open>cli\<close>. A request is what \<^verbatim>\<open>http.NewRequest\<close> builds plus the headers set on it;
  headers are kept as an association list in the order of the \<^verbatim>\<open>Header.Set\<close> calls.
\<close>

record request =
  reqMethod :: string
  reqURL :: string
  reqBody :: "string option"
  reqHeaders :: "(string \<times> string) list"

text \<open>
  A response carries its status code and its body. \<^verbatim>\<open>io.ReadAll\<close> on the body returns the
  bytes read and possibly an error; \<open>readFails\<close> says whether it does.
\<close>

record response =
  StatusCode :: int
  bodyBytes :: string
  readFails :: bool

datatype reply = TransportError | Response response

text \<open>
  Everything the code obtains from outside: \<^verbatim>\<open>json.Marshal\<close> of a request body,
  whether \<^verbatim>\<open>http.NewRequest\<close> accepts a method and URL, the reply \<^verbatim>\<open>cli.Do\<close> gives to
  the \<open>n\<close>-th request of the run (counted from 0), the wall-clock date in the layout
  \<^verbatim>\<open>2006-01-02\<close> (and that date shifted by a number of days), and the environment
  variable \<^verbatim>\<open>FINANCIAL_DATASETS_API_KEY\<close>.
\<close>

record 'j world =
  marshal :: "'j \<Rightarrow> string option"
  newRequestOK :: "string \<Rightarrow> string \<Rightarrow> bool"
  clientDo :: "nat \<Rightarrow> request \<Rightarrow> reply"
  todayPlus :: "int \<Rightarrow> string"
  envAPIKey :: string

text \<open>
  The observable effects of a run: the requests handed to \<^verbatim>\<open>cli.Do\<close>, in order, and
  the arguments of \<^verbatim>\<open>time.Sleep\<close>, in seconds, in order.
\<close>

record effects =
  sent :: "request list"
  slept :: "int list"

datatype error =
    MarshalFailed
  | NewRequestFailed string
  | DoFailed
  | RetriesExhausted int
  | APIRequestFailed error
  | StatusError string int string
  | ReadBodyFailed
  | DecodeFailed
  | ParseTimeFailed string
  | JSONSyntaxError
  | JSONTypeError string

section \<open>The retry client\<close>

text \<open>
  The request built at the top of every attempt of \<^verbatim>\<open>makeAPIRequest\<close>: a POST with the
  marshalled body when the method is POST and a body is given, a GET otherwise; then the
  caller's headers are set.
\<close>

definition buildRequest ::
  "'j world \<Rightarrow> string \<Rightarrow> (string \<times> string) list \<Rightarrow> string \<Rightarrow> 'j option \<Rightarrow> error + request"
where
  "buildRequest w url headers method jsonData =
     (case (method = ''POST'', jsonData) of
        (True, Some j) \<Rightarrow>
          (case marshal w j of
             None \<Rightarrow> Inl MarshalFailed
           | Some body \<Rightarrow>
               if newRequestOK w ''POST'' url then
                 Inr \<lparr>reqMethod = ''POST'', reqURL = url, reqBody = Some body,
                      reqHeaders = (''Content-Type'', ''application/json'') # headers\<rparr>
               else Inl (NewRequestFailed ''POST''))
      | _ \<Rightarrow>
          if newRequestOK w ''GET'' url then
            Inr \<lparr>reqMethod = ''GET'', reqURL = url, reqBody = None, reqHeaders = headers\<rparr>
          else Inl (NewRequestFailed ''GET''))"

text \<open>
  The loop \<^verbatim>\<open>for attempt := 0; attempt <= maxRetries; attempt++\<close>. A 429 with retries left
  sleeps \<open>60 + 30 * attempt\<close> seconds and continues; every other reply returns. The
  statement after the loop returns the error "still failing after maxRetries retries".
  The reply to an attempt is the reply of the service to the request with the index
  \<open>length (sent fx)\<close>, the number of requests issued before it. \<^verbatim>\<open>attempt\<close> and
  \<^verbatim>\<open>maxRetries\<close> are Go \<^verbatim>\<open>int\<close>s, read as integers: \<^verbatim>\<open>attempt\<close> is incremented only
  while it is below \<^verbatim>\<open>maxRetries\<close>, so the increment never wraps.
\<close>

function attemptLoop ::
  "'j world \<Rightarrow> string \<Rightarrow> (string \<times> string) list \<Rightarrow> string \<Rightarrow> 'j option \<Rightarrow> int \<Rightarrow> int
     \<Rightarrow> effects \<Rightarrow> (error + response) \<times> effects"
where
  "attemptLoop w url headers method jsonData maxRetries attempt fx =
     (if attempt \<le> maxRetries then
        (case buildRequest w url headers method jsonData of
           Inl e \<Rightarrow> (Inl e, fx)
         | Inr req \<Rightarrow>
             (case clientDo w (length (sent fx)) req of
                TransportError \<Rightarrow> (Inl DoFailed, fx\<lparr>sent := sent fx @ [req]\<rparr>)
              | Response resp \<Rightarrow>
                  if StatusCode resp = 429 \<and> attempt < maxRetries then
                    attemptLoop w url headers method jsonData maxRetries (attempt + 1)
                      (fx\<lparr>sent := sent fx @ [req],
                          slept := slept fx @ [60 + 30 * attempt]\<rparr>)
                  else (Inr resp, fx\<lparr>sent := sent fx @ [req]\<rparr>)))
      else (Inl (RetriesExhausted maxRetries), fx))"
  by pat_completeness auto

termination
  by (relation "measure (\<lambda>(w, url, headers, method, jsonData, maxRetries, attempt, fx).
        nat (maxRetries + 1 - attempt))") auto

definition makeAPIRequest ::
  "'j world \<Rightarrow> string \<Rightarrow> (string \<times> string) list \<Rightarrow> string \<Rightarrow> 'j option \<Rightarrow> int
     \<Rightarrow> effects \<Rightarrow> (error + response) \<times> effects"
where
  "makeAPIRequest w url headers method jsonData maxRetries fx =
     attemptLoop w url headers method jsonData maxRetries 0 fx"

text \<open>What the caller of the retry client gets for the reply that ends the loop.\<close>

definition outcome :: "reply \<Rightarrow> error + response" where
  "outcome r = (case r of TransportError \<Rightarrow> Inl DoFailed | Response resp \<Rightarrow> Inr resp)"

definition is429 :: "reply \<Rightarrow> bool" where
  "is429 r = (case r of TransportError \<Rightarrow> False | Response resp \<Rightarrow> StatusCode resp = 429)"

text \<open>Fixtures for concrete runs: a server that plays a script of replies and then
  repeats one reply, and a run that starts with nothing sent.\<close>

definition plainReply :: "int \<Rightarrow> string \<Rightarrow> reply" where
  "plainReply code body = Response \<lparr>StatusCode = code, bodyBytes = body, readFails = False\<rparr>"

definition scripted :: "reply list \<Rightarrow> reply \<Rightarrow> unit world" where
  "scripted rs d =
     \<lparr>marshal = (\<lambda>_. Some ''{}''), newRequestOK = (\<lambda>_ _. True),
      clientDo = (\<lambda>n _. if n < length rs then rs ! n else d),
      todayPlus = (\<lambda>_. ''2024-06-01''), envAPIKey = []\<rparr>"

definition noEffects :: effects where
  "noEffects = \<lparr>sent = [], slept = []\<rparr>"

definition getRequest :: "string \<Rightarrow> (string \<times> string) list \<Rightarrow> request" where
  "getRequest url headers =
     \<lparr>reqMethod = ''GET'', reqURL = url, reqBody = None, reqHeaders = headers\<rparr>"

declare attemptLoop.simps [simp del]

section \<open>The series normalizer\<close>

text \<open>
  A \<^verbatim>\<open>time.Time\<close> is an instant (here in nanoseconds since the epoch) together with the
  zone offset it was written in; \<^verbatim>\<open>Before\<close> compares instants only.
\<close>

record time_Time =
  unixNano :: int
  zoneOffset :: int

definition Before :: "time_Time \<Rightarrow> time_Time \<Rightarrow> bool" where
  "Before t u = (unixNano t < unixNano u)"

text \<open>\<^verbatim>\<open>float64\<close> values are only moved around, never computed with: they are a type
  parameter \<open>'f\<close>.\<close>

record 'f Price =
  Open :: 'f
  Close :: 'f
  High :: 'f
  Low :: 'f
  Volume :: "64 word"
  Time :: string

record 'f PriceDataFrame =
  Dates :: "time_Time list"
  dfOpen :: "'f list"
  dfClose :: "'f list"
  dfHigh :: "'f list"
  dfLow :: "'f list"
  dfVolume :: "64 word list"

record 'f sortData =
  date :: time_Time
  open' :: 'f
  close :: 'f
  high :: 'f
  low :: 'f
  volume :: "64 word"

text \<open>
  The standard-library routines \<^verbatim>\<open>PricesToDataFrame\<close> calls: \<^verbatim>\<open>time.Parse\<close> with the
  layout \<^verbatim>\<open>time.RFC3339\<close>, \<^verbatim>\<open>time.Parse\<close> with the layout \<^verbatim>\<open>2006-01-02\<close>, and
  \<^verbatim>\<open>sort.Slice\<close>, which takes the comparison and returns the reordered slice.
\<close>

record 'f stdlib =
  parseRFC3339 :: "string \<Rightarrow> time_Time option"
  parseDateOnly :: "string \<Rightarrow> time_Time option"
  sortSlice :: "('f sortData \<Rightarrow> 'f sortData \<Rightarrow> bool) \<Rightarrow> 'f sortData list \<Rightarrow> 'f sortData list"

text \<open>
  What the documentation of \<^verbatim>\<open>sort.Slice\<close> promises: for a comparison that is a strict,
  transitive ordering whose incomparability is transitive too, the slice is permuted
  into an order in which no element sorts before an earlier one. It adds: "The sort is
  not guaranteed to be stable".
\<close>

definition transitive_ordering :: "('a \<Rightarrow> 'a \<Rightarrow> bool) \<Rightarrow> bool" where
  "transitive_ordering lt =
     ((\<forall>a. \<not> lt a a) \<and>
      (\<forall>a b c. lt a b \<longrightarrow> lt b c \<longrightarrow> lt a c) \<and>
      (\<forall>a b c. \<not> lt a b \<longrightarrow> \<not> lt b c \<longrightarrow> \<not> lt a c))"

definition sortSlice_contract :: "(('a \<Rightarrow> 'a \<Rightarrow> bool) \<Rightarrow> 'a list \<Rightarrow> 'a list) \<Rightarrow> bool" where
  "sortSlice_contract srt =
     (\<forall>lt xs. transitive_ordering lt \<longrightarrow>
        mset (srt lt xs) = mset xs \<and> sorted_wrt (\<lambda>a b. \<not> lt b a) (srt lt xs))"

text \<open>The two-layout parse at the top of the first loop.\<close>

definition parseTime :: "'f stdlib \<Rightarrow> string \<Rightarrow> error + time_Time" where
  "parseTime lib s =
     (case parseRFC3339 lib s of
        Some d \<Rightarrow> Inr d
      | None \<Rightarrow>
          (case parseDateOnly lib s of
             Some d \<Rightarrow> Inr d
           | None \<Rightarrow> Inl (ParseTimeFailed s)))"

text \<open>
  The first loop parses the records in order and returns at the first timestamp that
  does not parse; the columns it fills are then copied row by row into \<^verbatim>\<open>data\<close>.
\<close>

fun fillRows :: "'f stdlib \<Rightarrow> 'f Price list \<Rightarrow> error + 'f sortData list" where
  "fillRows lib [] = Inr []"
| "fillRows lib (price # prices) =
     (case parseTime lib (Time price) of
        Inl e \<Rightarrow> Inl e
      | Inr d \<Rightarrow>
          (case fillRows lib prices of
             Inl e \<Rightarrow> Inl e
           | Inr data \<Rightarrow>
               Inr (\<lparr>date = d, open' = Open price, close = Close price, high = High price,
                     low = Low price, volume = Volume price\<rparr> # data)))"

text \<open>The last loop writes the sorted rows back into the columns.\<close>

definition toFrame :: "'f sortData list \<Rightarrow> 'f PriceDataFrame" where
  "toFrame data =
     \<lparr>Dates = map date data, dfOpen = map open' data, dfClose = map close data,
      dfHigh = map high data, dfLow = map low data, dfVolume = map volume data\<rparr>"

definition PricesToDataFrame :: "'f stdlib \<Rightarrow> 'f Price list \<Rightarrow> error + 'f PriceDataFrame" where
  "PricesToDataFrame lib prices =
     (if length prices = 0 then Inr (toFrame [])
      else
        (case fillRows lib prices of
           Inl e \<Rightarrow> Inl e
         | Inr data \<Rightarrow>
             Inr (toFrame (sortSlice lib (\<lambda>a b. Before (date a) (date b)) data))))"

text \<open>A sorting routine that meets the contract of \<^verbatim>\<open>sort.Slice\<close>: insertion of each
  element, from the last to the first, before the first element it sorts before.\<close>

fun insertBy :: "('a \<Rightarrow> 'a \<Rightarrow> bool) \<Rightarrow> 'a \<Rightarrow> 'a list \<Rightarrow> 'a list" where
  "insertBy lt x [] = [x]"
| "insertBy lt x (y # ys) = (if lt x y then x # y # ys else y # insertBy lt x ys)"

fun insertionSort :: "('a \<Rightarrow> 'a \<Rightarrow> bool) \<Rightarrow> 'a list \<Rightarrow> 'a list" where
  "insertionSort lt [] = []"
| "insertionSort lt (x # xs) = insertBy lt x (insertionSort lt xs)"

text \<open>A timestamp is well formed when one of the two layouts reads it.\<close>

definition parses :: "'f stdlib \<Rightarrow> string \<Rightarrow> bool" where
  "parses lib s = (parseRFC3339 lib s \<noteq> None \<or> parseDateOnly lib s \<noteq> None)"

text \<open>Fixtures: a library that knows three timestamps and sorts by insertion, and a
  price record with one value in every numeric column.\<close>

definition fixtureLib :: "int stdlib" where
  "fixtureLib =
     \<lparr>parseRFC3339 = (\<lambda>s. if s = ''2024-01-03T10:00:00Z''
                           then Some \<lparr>unixNano = 1704276000000000000, zoneOffset = 0\<rparr>
                           else None),
      parseDateOnly = (\<lambda>s. if s = ''2024-01-01''
                            then Some \<lparr>unixNano = 1704067200000000000, zoneOffset = 0\<rparr>
                            else if s = ''2024-01-02''
                            then Some \<lparr>unixNano = 1704153600000000000, zoneOffset = 0\<rparr>
                            else None),
      sortSlice = insertionSort\<rparr>"

definition flatPrice :: "int \<Rightarrow> string \<Rightarrow> int Price" where
  "flatPrice v t = \<lparr>Open = v, Close = v, High = v, Low = v, Volume = 100, Time = t\<rparr>"

section \<open>The paginated aggregators\<close>

text \<open>An insider trade as the service sends it; the pointer fields of the struct are
  options.\<close>

record 'f InsiderTrade =
  Ticker :: string
  Issuer :: "string option"
  Name :: "string option"
  Title :: "string option"
  IsBoardDirector :: "bool option"
  TransactionDate :: "string option"
  TransactionShares :: "'f option"
  TransactionPricePerShare :: "'f option"
  TransactionValue :: "'f option"
  SharesOwnedBeforeTransaction :: "'f option"
  SharesOwnedAfterTransaction :: "'f option"
  SecurityTitle :: "string option"
  FilingDate :: string

text \<open>The news record is \<^verbatim>\<open>tools.CompanyNews\<close>.\<close>

record tools_CompanyNews =
  ID :: string
  Title' :: string
  Summary :: string
  URL :: string
  Source :: string
  Category :: string
  DateTime :: string

text \<open>
  \<^verbatim>\<open>json.Unmarshal\<close> of a response body into the envelope of each endpoint, giving the
  list the envelope holds, or nothing when the body does not decode.
\<close>

record 'f decoders =
  decodeInsiderTrades :: "string \<Rightarrow> 'f InsiderTrade list option"
  decodeNews :: "string \<Rightarrow> tools_CompanyNews list option"

text \<open>\<^verbatim>\<open>fmt.Sprintf("%d", n)\<close>.\<close>

fun digitsOf :: "nat \<Rightarrow> string" where
  "digitsOf n =
     (if n < 10 then [''0123456789'' ! n]
      else digitsOf (n div 10) @ [''0123456789'' ! (n mod 10)])"

declare digitsOf.simps [simp del]

definition showInt :: "int \<Rightarrow> string" where
  "showInt i = (if i < 0 then CHR ''-'' # digitsOf (nat (- i)) else digitsOf (nat i))"

text \<open>The API key: the first variadic argument when it is given and not empty, the
  environment variable otherwise; the header is set when the key is not empty.\<close>

definition apiHeaders :: "'j world \<Rightarrow> string list \<Rightarrow> (string \<times> string) list" where
  "apiHeaders w apiKey =
     (let financialAPIKey =
        (case apiKey of
           k # _ \<Rightarrow> if k \<noteq> [] then k else envAPIKey w
         | [] \<Rightarrow> envAPIKey w)
      in if financialAPIKey \<noteq> [] then [(''X-API-KEY'', financialAPIKey)] else [])"

text \<open>
  One GET through the retry client with three retries, then the checks every fetch
  makes: a status other than 200 is an error that carries the ticker, the status and
  the body; a body that cannot be read or decoded is an error.
\<close>

definition fetchPage ::
  "'j world \<Rightarrow> (string \<Rightarrow> 'r option) \<Rightarrow> string \<Rightarrow> (string \<times> string) list \<Rightarrow> string \<Rightarrow> effects
     \<Rightarrow> (error + 'r) \<times> effects"
where
  "fetchPage w decode ticker headers url fx =
     (case makeAPIRequest w url headers ''GET'' None 3 fx of
        (Inl err, fx') \<Rightarrow> (Inl (APIRequestFailed err), fx')
      | (Inr resp, fx') \<Rightarrow>
          if StatusCode resp \<noteq> 200 then
            (Inl (StatusError ticker (StatusCode resp) (bodyBytes resp)), fx')
          else if readFails resp then (Inl ReadBodyFailed, fx')
          else
            (case decode (bodyBytes resp) of
               None \<Rightarrow> (Inl DecodeFailed, fx')
             | Some page \<Rightarrow> (Inr page, fx')))"

text \<open>The oldest date of a page, as the inner loop finds it, starting from the first
  record; and the cut at the first \<^verbatim>\<open>T\<close> that strips the time of day.\<close>

definition oldestDate :: "('r \<Rightarrow> string) \<Rightarrow> 'r \<Rightarrow> 'r list \<Rightarrow> string" where
  "oldestDate dateOf first page =
     foldl (\<lambda>minDate r. if dateOf r < minDate then dateOf r else minDate) (dateOf first) page"

definition dateOnly :: "string \<Rightarrow> string" where
  "dateOnly minDate =
     (if CHR ''T'' \<in> set minDate then takeWhile (\<lambda>c. c \<noteq> CHR ''T'') minDate else minDate)"

text \<open>
  The state of the pagination loop, and what one iteration does with it: stop with the
  function's result, or go on with a new cursor. The loops of \<^verbatim>\<open>GetInsiderTrades\<close> and
  \<^verbatim>\<open>GetCompanyNews\<close> are the same text up to the URL, the envelope and the date field,
  which are the parameters \<open>mkURL\<close>, \<open>decode\<close> and \<open>dateOf\<close> here. The state holds the
  effects so far (\<open>effs\<close>) next to the two variables of the loop.
\<close>

record 'r loopState =
  effs :: effects
  currentEndDate :: string
  allRecords :: "'r list"

datatype 'r outcome = Continue "'r loopState" | Stop "error + 'r list" effects

definition pageStep ::
  "'j world \<Rightarrow> (string \<Rightarrow> 'r list option) \<Rightarrow> ('r \<Rightarrow> string) \<Rightarrow> (string \<Rightarrow> string) \<Rightarrow> string
     \<Rightarrow> (string \<times> string) list \<Rightarrow> string option \<Rightarrow> int \<Rightarrow> 'r loopState \<Rightarrow> 'r outcome"
where
  "pageStep w decode dateOf mkURL ticker headers startDate limit st =
     (case fetchPage w decode ticker headers (mkURL (currentEndDate st)) (effs st) of
        (Inl e, fx') \<Rightarrow> Stop (Inl e) fx'
      | (Inr page, fx') \<Rightarrow>
          (case page of
             [] \<Rightarrow> Stop (Inr (allRecords st)) fx'
           | first # _ \<Rightarrow>
               if startDate = None \<or> int (length page) < limit then
                 Stop (Inr (allRecords st @ page)) fx'
               else
                 let minDate = dateOnly (oldestDate dateOf first page) in
                 (case startDate of
                    Some start \<Rightarrow>
                      if minDate \<le> start then Stop (Inr (allRecords st @ page)) fx'
                      else Continue \<lparr>effs = fx', currentEndDate = minDate,
                                     allRecords = allRecords st @ page\<rparr>
                  | None \<Rightarrow>
                      Continue \<lparr>effs = fx', currentEndDate = minDate,
                                allRecords = allRecords st @ page\<rparr>)))"

text \<open>
  The loop \<^verbatim>\<open>for { ... }\<close> has no bound of its own. \<open>pageLoop step n st\<close> runs at most \<open>n\<close>
  iterations from \<open>st\<close>: it is \<open>Stop\<close> when the loop has ended within them and the
  state reached when it has not.
\<close>

fun pageLoop :: "('r loopState \<Rightarrow> 'r outcome) \<Rightarrow> nat \<Rightarrow> 'r loopState \<Rightarrow> 'r outcome" where
  "pageLoop step 0 st = Continue st"
| "pageLoop step (Suc n) st =
     (case step st of
        Stop r fx' \<Rightarrow> Stop r fx'
      | Continue st' \<Rightarrow> pageLoop step n st')"

definition returned :: "'r outcome \<Rightarrow> ((error + 'r list) \<times> effects) option" where
  "returned out = (case out of Stop r fx' \<Rightarrow> Some (r, fx') | Continue _ \<Rightarrow> None)"

definition effectsOf :: "'r outcome \<Rightarrow> effects" where
  "effectsOf out = (case out of Stop r fx' \<Rightarrow> fx' | Continue st \<Rightarrow> effs st)"

definition insiderTradesURL :: "string \<Rightarrow> string option \<Rightarrow> string \<Rightarrow> int \<Rightarrow> string \<Rightarrow> string" where
  "insiderTradesURL ticker startDate startDateStr limit cursor =
     ''https://api.financialdatasets.ai/insider-trades/?ticker='' @ ticker @
     ''&filing_date_lte='' @ cursor @
     (if startDate \<noteq> None then ''&filing_date_gte='' @ startDateStr else []) @
     ''&limit='' @ showInt limit"

definition newsURL :: "string \<Rightarrow> string option \<Rightarrow> string \<Rightarrow> int \<Rightarrow> string \<Rightarrow> string" where
  "newsURL ticker startDate startDateStr limit cursor =
     ''https://api.financialdatasets.ai/news/?ticker='' @ ticker @
     ''&end_date='' @ cursor @
     (if startDate \<noteq> None then ''&start_date='' @ startDateStr else []) @
     ''&limit='' @ showInt limit"

text \<open>The loop body of \<^verbatim>\<open>GetInsiderTrades\<close>, with the defaults set before the loop:
  limit 1000 for 0, and \<^verbatim>\<open>startDateStr\<close>, which is "none" unless no start date is given.\<close>

definition insiderTradesStep ::
  "'j world \<Rightarrow> 'f decoders \<Rightarrow> string \<Rightarrow> string option \<Rightarrow> int \<Rightarrow> string list
     \<Rightarrow> 'f InsiderTrade loopState \<Rightarrow> 'f InsiderTrade outcome"
where
  "insiderTradesStep w dec ticker startDate limit0 apiKey =
     (let limit = (if limit0 = 0 then 1000 else limit0);
          startDateStr = (if startDate = None then todayPlus w (- 30) else ''none'');
          headers = apiHeaders w apiKey
      in pageStep w (decodeInsiderTrades dec) FilingDate
           (insiderTradesURL ticker startDate startDateStr limit) ticker headers startDate limit)"

text \<open>The loop of \<^verbatim>\<open>GetInsiderTrades\<close> after at most \<open>fuel\<close> iterations, and the function
  itself: what the loop returned, if it has ended.\<close>

definition insiderTradesRun ::
  "nat \<Rightarrow> 'j world \<Rightarrow> 'f decoders \<Rightarrow> string \<Rightarrow> string \<Rightarrow> string option \<Rightarrow> int \<Rightarrow> string list
     \<Rightarrow> effects \<Rightarrow> 'f InsiderTrade outcome"
where
  "insiderTradesRun fuel w dec ticker endDate startDate limit apiKey fx0 =
     pageLoop (insiderTradesStep w dec ticker startDate limit apiKey) fuel
       \<lparr>effs = fx0, currentEndDate = endDate, allRecords = []\<rparr>"

definition GetInsiderTrades ::
  "nat \<Rightarrow> 'j world \<Rightarrow> 'f decoders \<Rightarrow> string \<Rightarrow> string \<Rightarrow> string option \<Rightarrow> int \<Rightarrow> string list
     \<Rightarrow> effects \<Rightarrow> ((error + 'f InsiderTrade list) \<times> effects) option"
where
  "GetInsiderTrades fuel w dec ticker endDate startDate limit apiKey fx0 =
     returned (insiderTradesRun fuel w dec ticker endDate startDate limit apiKey fx0)"

definition companyNewsStep ::
  "'j world \<Rightarrow> 'f decoders \<Rightarrow> string \<Rightarrow> string option \<Rightarrow> int \<Rightarrow> string list
     \<Rightarrow> tools_CompanyNews loopState \<Rightarrow> tools_CompanyNews outcome"
where
  "companyNewsStep w dec ticker startDate limit0 apiKey =
     (let limit = (if limit0 = 0 then 1000 else limit0);
          startDateStr = (if startDate = None then todayPlus w 30 else ''none'');
          headers = apiHeaders w apiKey
      in pageStep w (decodeNews dec) DateTime
           (newsURL ticker startDate startDateStr limit) ticker headers startDate limit)"

definition companyNewsRun ::
  "nat \<Rightarrow> 'j world \<Rightarrow> 'f decoders \<Rightarrow> string \<Rightarrow> string \<Rightarrow> string option \<Rightarrow> int \<Rightarrow> string list
     \<Rightarrow> effects \<Rightarrow> tools_CompanyNews outcome"
where
  "companyNewsRun fuel w dec ticker endDate startDate limit apiKey fx0 =
     pageLoop (companyNewsStep w dec ticker startDate limit apiKey) fuel
       \<lparr>effs = fx0, currentEndDate = endDate, allRecords = []\<rparr>"

definition GetCompanyNews ::
  "nat \<Rightarrow> 'j world \<Rightarrow> 'f decoders \<Rightarrow> string \<Rightarrow> string \<Rightarrow> string option \<Rightarrow> int \<Rightarrow> string list
     \<Rightarrow> effects \<Rightarrow> ((error + tools_CompanyNews list) \<times> effects) option"
where
  "GetCompanyNews fuel w dec ticker endDate startDate limit apiKey fx0 =
     returned (companyNewsRun fuel w dec ticker endDate startDate limit apiKey fx0)"

text \<open>Fixtures: a server that answers 200 three times, with two full pages of two
  records and then an empty page, and decoders that know these three bodies.\<close>

definition filing :: "string \<Rightarrow> int InsiderTrade" where
  "filing d =
     \<lparr>Ticker = ''AAPL'', Issuer = None, Name = None, Title = None, IsBoardDirector = None,
      TransactionDate = None, TransactionShares = None, TransactionPricePerShare = None,
      TransactionValue = None, SharesOwnedBeforeTransaction = None,
      SharesOwnedAfterTransaction = None, SecurityTitle = None, FilingDate = d\<rparr>"

definition article :: "string \<Rightarrow> tools_CompanyNews" where
  "article d =
     \<lparr>ID = ''1'', Title' = ''Results'', Summary = [], URL = [], Source = [], Category = [],
      DateTime = d\<rparr>"

definition fixtureDecoders :: "int decoders" where
  "fixtureDecoders =
     \<lparr>decodeInsiderTrades = (\<lambda>b.
        if b = ''A'' then Some [filing ''2024-01-05T09:00:00'', filing ''2024-01-04'']
        else if b = ''B'' then Some [filing ''2024-01-03'', filing ''2024-01-02'']
        else if b = ''E'' then Some []
        else None),
      decodeNews = (\<lambda>b.
        if b = ''A'' then Some [article ''2024-01-05T09:00:00'', article ''2024-01-04'']
        else if b = ''B'' then Some [article ''2024-01-03'', article ''2024-01-02'']
        else if b = ''E'' then Some []
        else None)\<rparr>"

definition pagedWorld :: "unit world" where
  "pagedWorld = scripted [plainReply 200 ''A'', plainReply 200 ''B''] (plainReply 200 ''E'')"

definition tradesLTE :: "string \<Rightarrow> request" where
  "tradesLTE c = getRequest (''https://api.financialdatasets.ai/insider-trades/?ticker=AAPL'' @
     ''&filing_date_lte='' @ c @ ''&filing_date_gte=none&limit=2'') []"

definition newsLTE :: "string \<Rightarrow> request" where
  "newsLTE c = getRequest (''https://api.financialdatasets.ai/news/?ticker=AAPL'' @
     ''&end_date='' @ c @ ''&start_date=none&limit=2'') []"

definition tradesState :: "nat \<Rightarrow> int InsiderTrade loopState" where
  "tradesState k =
     (if k = 0 then \<lparr>effs = noEffects, currentEndDate = ''2024-01-10'', allRecords = []\<rparr>
      else if k = 1 then
        \<lparr>effs = \<lparr>sent = [tradesLTE ''2024-01-10''], slept = []\<rparr>,
         currentEndDate = ''2024-01-04'',
         allRecords = [filing ''2024-01-05T09:00:00'', filing ''2024-01-04'']\<rparr>
      else
        \<lparr>effs = \<lparr>sent = [tradesLTE ''2024-01-10'', tradesLTE ''2024-01-04''], slept = []\<rparr>,
         currentEndDate = ''2024-01-02'',
         allRecords = [filing ''2024-01-05T09:00:00'', filing ''2024-01-04'',
                       filing ''2024-01-03'', filing ''2024-01-02'']\<rparr>)"

definition newsState :: "nat \<Rightarrow> tools_CompanyNews loopState" where
  "newsState k =
     (if k = 0 then \<lparr>effs = noEffects, currentEndDate = ''2024-01-10'', allRecords = []\<rparr>
      else if k = 1 then
        \<lparr>effs = \<lparr>sent = [newsLTE ''2024-01-10''], slept = []\<rparr>,
         currentEndDate = ''2024-01-04'',
         allRecords = [article ''2024-01-05T09:00:00'', article ''2024-01-04'']\<rparr>
      else
        \<lparr>effs = \<lparr>sent = [newsLTE ''2024-01-10'', newsLTE ''2024-01-04''], slept = []\<rparr>,
         currentEndDate = ''2024-01-02'',
         allRecords = [article ''2024-01-05T09:00:00'', article ''2024-01-04'',
                       article ''2024-01-03'', article ''2024-01-02'']\<rparr>)"

section \<open>The market-cap resolver\<close>

text \<open>
  Of \<^verbatim>\<open>CompanyFacts\<close> and \<^verbatim>\<open>tools.FinancialMetrics\<close> the resolver reads the market
  capitalisation only; the other fields of the two structs are left to the extension of
  the records.
\<close>

record 'f CompanyFacts =
  MarketCap' :: 'f

record 'f FinancialMetrics =
  MarketCap :: 'f

text \<open>\<^verbatim>\<open>json.Unmarshal\<close> into \<^verbatim>\<open>CompanyFactsResponse\<close> and into
  \<^verbatim>\<open>FinancialMetricsResponse\<close>.\<close>

record 'f metricDecoders =
  decodeCompanyFacts :: "string \<Rightarrow> 'f CompanyFacts option"
  decodeFinancialMetrics :: "string \<Rightarrow> 'f FinancialMetrics list option"

definition GetFinancialMetrics ::
  "'j world \<Rightarrow> 'f metricDecoders \<Rightarrow> string \<Rightarrow> string \<Rightarrow> string \<Rightarrow> int \<Rightarrow> string list \<Rightarrow> effects
     \<Rightarrow> (error + 'f FinancialMetrics list) \<times> effects"
where
  "GetFinancialMetrics w dec ticker endDate period0 limit0 apiKey fx0 =
     (let period = (if period0 = [] then ''ttm'' else period0);
          limit = (if limit0 = 0 then 10 else limit0);
          headers = apiHeaders w apiKey;
          url = ''https://api.financialdatasets.ai/financial-metrics/?ticker='' @ ticker @
                ''&report_period_lte='' @ endDate @ ''&limit='' @ showInt limit @
                ''&period='' @ period
      in fetchPage w (decodeFinancialMetrics dec) ticker headers url fx0)"

text \<open>
  \<^verbatim>\<open>GetMarketCap\<close>: on today's date the company facts are fetched, and a status other
  than 200 gives 0 and no error; on any other date the metrics are fetched with period
  "ttm" and limit 10. The notice printed on the non-200 path is not part of the model.
\<close>

definition GetMarketCap ::
  "'j world \<Rightarrow> ('f :: zero) metricDecoders \<Rightarrow> string \<Rightarrow> string \<Rightarrow> string list \<Rightarrow> effects
     \<Rightarrow> (error + 'f) \<times> effects"
where
  "GetMarketCap w dec ticker endDate apiKey fx0 =
     (let today = todayPlus w 0 in
      if endDate = today then
        (let headers = apiHeaders w apiKey;
             url = ''https://api.financialdatasets.ai/company/facts/?ticker='' @ ticker
         in case makeAPIRequest w url headers ''GET'' None 3 fx0 of
              (Inl err, fx') \<Rightarrow> (Inl (APIRequestFailed err), fx')
            | (Inr resp, fx') \<Rightarrow>
                if StatusCode resp \<noteq> 200 then (Inr 0, fx')
                else if readFails resp then (Inl ReadBodyFailed, fx')
                else
                  (case decodeCompanyFacts dec (bodyBytes resp) of
                     None \<Rightarrow> (Inl DecodeFailed, fx')
                   | Some factsResponse \<Rightarrow> (Inr (MarketCap' factsResponse), fx')))
      else
        (case GetFinancialMetrics w dec ticker endDate ''ttm'' 10 apiKey fx0 of
           (Inl err, fx') \<Rightarrow> (Inl err, fx')
         | (Inr financialMetrics, fx') \<Rightarrow>
             (case financialMetrics of
                [] \<Rightarrow> (Inr 0, fx')
              | m # _ \<Rightarrow> (Inr (MarketCap m), fx'))))"

text \<open>Fixtures: decoders that know one facts body and two metrics bodies.\<close>

definition capDecoders :: "int metricDecoders" where
  "capDecoders =
     \<lparr>decodeCompanyFacts = (\<lambda>b. if b = ''facts'' then Some \<lparr>MarketCap' = 3000\<rparr> else None),
      decodeFinancialMetrics = (\<lambda>b.
        if b = ''metrics'' then Some [\<lparr>MarketCap = 2500\<rparr>, \<lparr>MarketCap = 2400\<rparr>]
        else if b = ''none'' then Some []
        else None)\<rparr>"

section \<open>Dynamic-field decoding of line items\<close>

text \<open>
  A JSON document as \<^verbatim>\<open>encoding/json\<close> reads it; the members of an object are kept in
  the order of the text. Numbers are a type parameter (they become \<^verbatim>\<open>float64\<close> values
  in a \<^verbatim>\<open>map[string]any\<close>). The bytes handed to \<^verbatim>\<open>UnmarshalJSON\<close> are the document
  they spell, or nothing when they are not valid JSON.
\<close>

datatype 'n json =
    JNull
  | JBool bool
  | JNumber 'n
  | JString string
  | JArray "'n json list"
  | JObject "(string \<times> 'n json) list"















chapter \<open>Properties\<close>

section \<open>Properties of the retry client\<close>

lemma upt_Suc_shift: "[0..<Suc k] = 0 # map Suc [0..<k]"
  by (simp add: upt_conv_Cons map_Suc_upt del: upt_Suc)

text \<open>
  A run that sees \<open>k\<close> replies 429 while retries are left, and then a reply that ends
  the loop, issues \<open>k + 1\<close> requests, sleeps after each of the first \<open>k\<close>, and hands the
  last reply to the caller.
\<close>

lemma attemptLoop_run:
  assumes build: "buildRequest w url headers method jsonData = Inr req"
    and retry: "\<forall>j<k. is429 (clientDo w (length (sent fx) + j) req)"
    and left: "attempt + int k \<le> maxRetries"
    and last: "\<not> (is429 (clientDo w (length (sent fx) + k) req) \<and> attempt + int k < maxRetries)"
  shows "attemptLoop w url headers method jsonData maxRetries attempt fx =
           (outcome (clientDo w (length (sent fx) + k) req),
            fx\<lparr>sent := sent fx @ replicate (Suc k) req,
               slept := slept fx @ map (\<lambda>i. 60 + 30 * (attempt + int i)) [0..<k]\<rparr>)"
  using retry left last
proof (induction k arbitrary: attempt fx)
  case 0
  then show ?case
    using build
    by (subst attemptLoop.simps)
       (auto simp: outcome_def is429_def split: reply.splits)
next
  case (Suc k)
  let ?fx = "fx\<lparr>sent := sent fx @ [req], slept := slept fx @ [60 + 30 * attempt]\<rparr>"
  from Suc.prems(1) have first: "is429 (clientDo w (length (sent fx)) req)"
    by (metis add.right_neutral zero_less_Suc)
  have r: "\<forall>j<k. is429 (clientDo w (length (sent ?fx) + j) req)"
    using Suc.prems(1) by (auto dest: spec [where x = "Suc _"])
  have l: "attempt + 1 + int k \<le> maxRetries" using Suc.prems(2) by simp
  have e: "\<not> (is429 (clientDo w (length (sent ?fx) + k) req) \<and> attempt + 1 + int k < maxRetries)"
    using Suc.prems(3) by (simp add: add.assoc)
  have step: "attemptLoop w url headers method jsonData maxRetries attempt fx =
      attemptLoop w url headers method jsonData maxRetries (attempt + 1) ?fx"
    using build first Suc.prems(2)
    by (subst attemptLoop.simps) (auto simp: is429_def split: reply.splits)
  have m: "map (\<lambda>i. 60 + 30 * (attempt + int i)) [0..<Suc k] =
      (60 + 30 * attempt) # map (\<lambda>i. 60 + 30 * (attempt + 1 + int i)) [0..<k]"
    unfolding upt_Suc_shift by (simp add: comp_def algebra_simps del: upt_Suc)
  show ?case
    unfolding step Suc.IH [OF r l e] m
    by (simp add: replicate_append_same)
qed

lemma attemptLoop_no_budget:
  "maxRetries < attempt \<Longrightarrow>
   attemptLoop w url headers method jsonData maxRetries attempt fx =
     (Inl (RetriesExhausted maxRetries), fx)"
  by (subst attemptLoop.simps) simp

lemma buildRequest_scripted_GET:
  "buildRequest (scripted rs d) url headers ''GET'' None = Inr (getRequest url headers)"
  by (simp add: buildRequest_def scripted_def getRequest_def)

text \<open>
  Claim C1, as the spec states it: when every attempt is answered with 429, the client
  makes \<open>maxRetries + 1\<close> requests and returns the "retries exhausted" error. On the code
  the last 429 is not retried (\<^verbatim>\<open>attempt < maxRetries\<close> is false) and falls through to
  \<^verbatim>\<open>return resp, nil\<close>: with three retries and a server that always answers 429 the
  caller gets the fourth 429 response, not an error.
\<close>

theorem makeAPIRequest_all_429_returns_response:
  "makeAPIRequest (scripted [] (plainReply 429 ''slow down'')) ''u'' [] ''GET'' None 3 noEffects =
     (Inr \<lparr>StatusCode = 429, bodyBytes = ''slow down'', readFails = False\<rparr>,
      \<lparr>sent = replicate 4 (getRequest ''u'' []), slept = [60, 90, 120]\<rparr>)"
proof -
  let ?w = "scripted [] (plainReply 429 ''slow down'')"
  have "attemptLoop ?w ''u'' [] ''GET'' None 3 0 noEffects =
      (outcome (clientDo ?w (length (sent noEffects) + 3) (getRequest ''u'' [])),
       noEffects\<lparr>sent := sent noEffects @ replicate (Suc 3) (getRequest ''u'' []),
         slept := slept noEffects @ map (\<lambda>i. 60 + 30 * (0 + int i)) [0..<3]\<rparr>)"
    by (rule attemptLoop_run [OF buildRequest_scripted_GET])
       (simp_all add: scripted_def plainReply_def is429_def)
  then show ?thesis
    by (simp add: makeAPIRequest_def noEffects_def scripted_def plainReply_def outcome_def
        upt_conv_Cons eval_nat_numeral)
qed

text \<open>
  Claim C1, amended: when every attempt is answered with 429 and \<open>maxRetries \<ge> 0\<close>, the
  client makes exactly \<open>maxRetries + 1\<close> requests, sleeps \<open>60 + 30 i\<close> seconds after each
  of the first \<open>maxRetries\<close> of them, and returns the last 429 response itself with no
  error. The "retries exhausted" error is returned only when \<open>maxRetries < 0\<close>, and then
  no request is made.
\<close>

theorem makeAPIRequest_all_429:
  assumes build: "buildRequest w url headers method jsonData = Inr req"
    and all429: "\<forall>n. is429 (clientDo w n req)"
  shows "(0 \<le> maxRetries \<longrightarrow>
            (\<exists>resp. StatusCode resp = 429 \<and>
               makeAPIRequest w url headers method jsonData maxRetries fx =
                 (Inr resp,
                  fx\<lparr>sent := sent fx @ replicate (nat maxRetries + 1) req,
                     slept := slept fx @ map (\<lambda>i. 60 + 30 * int i) [0..<nat maxRetries]\<rparr>))) \<and>
         (maxRetries < 0 \<longrightarrow>
            makeAPIRequest w url headers method jsonData maxRetries fx =
              (Inl (RetriesExhausted maxRetries), fx))"
proof (intro conjI impI)
  assume nonneg: "0 \<le> maxRetries"
  let ?k = "nat maxRetries"
  from all429 have "is429 (clientDo w (length (sent fx) + ?k) req)"
    by blast
  then obtain resp where resp: "clientDo w (length (sent fx) + ?k) req = Response resp"
    and code: "StatusCode resp = 429"
    by (cases "clientDo w (length (sent fx) + ?k) req") (auto simp: is429_def)
  have "attemptLoop w url headers method jsonData maxRetries 0 fx =
      (outcome (clientDo w (length (sent fx) + ?k) req),
       fx\<lparr>sent := sent fx @ replicate (Suc ?k) req,
          slept := slept fx @ map (\<lambda>i. 60 + 30 * (0 + int i)) [0..<?k]\<rparr>)"
    using all429 nonneg by (intro attemptLoop_run [OF build]) simp_all
  then have "makeAPIRequest w url headers method jsonData maxRetries fx =
      (Inr resp,
       fx\<lparr>sent := sent fx @ replicate (?k + 1) req,
          slept := slept fx @ map (\<lambda>i. 60 + 30 * int i) [0..<?k]\<rparr>)"
    by (simp add: makeAPIRequest_def resp outcome_def)
  with code show "\<exists>resp. StatusCode resp = 429 \<and>
      makeAPIRequest w url headers method jsonData maxRetries fx =
        (Inr resp,
         fx\<lparr>sent := sent fx @ replicate (?k + 1) req,
            slept := slept fx @ map (\<lambda>i. 60 + 30 * int i) [0..<?k]\<rparr>)"
    by blast
next
  assume "maxRetries < 0"
  then show "makeAPIRequest w url headers method jsonData maxRetries fx =
      (Inl (RetriesExhausted maxRetries), fx)"
    by (simp add: makeAPIRequest_def attemptLoop_no_budget)
qed

theorem makeAPIRequest_all_429_witness:
  "buildRequest (scripted [] (plainReply 429 [])) ''u'' [] ''GET'' None = Inr (getRequest ''u'' []) \<and>
   is429 (clientDo (scripted [] (plainReply 429 [])) 7 (getRequest ''u'' [])) \<and>
   (\<exists>resp. StatusCode resp = 429 \<and>
      makeAPIRequest (scripted [] (plainReply 429 [])) ''u'' [] ''GET'' None 2 noEffects =
        (Inr resp, \<lparr>sent = replicate 3 (getRequest ''u'' []), slept = [60, 90]\<rparr>)) \<and>
   makeAPIRequest (scripted [] (plainReply 429 [])) ''u'' [] ''GET'' None (- 1) noEffects =
     (Inl (RetriesExhausted (- 1)), noEffects)"
proof -
  let ?w = "scripted [] (plainReply 429 [])"
  have b: "buildRequest ?w ''u'' [] ''GET'' None = Inr (getRequest ''u'' [])"
    by (rule buildRequest_scripted_GET)
  have a: "\<forall>n. is429 (clientDo ?w n (getRequest ''u'' []))"
    by (simp add: scripted_def plainReply_def is429_def)
  from makeAPIRequest_all_429 [OF b a, of 2 noEffects]
    makeAPIRequest_all_429 [OF b a, of "- 1" noEffects] b a
  show ?thesis
    by (simp add: noEffects_def upt_conv_Cons eval_nat_numeral)
qed

text \<open>
  Claim C2: a run that receives 429 on the attempts \<open>0, \<dots>, k - 1\<close> (with \<open>k \<le> maxRetries\<close>)
  sleeps \<open>60 + 30 i\<close> seconds after attempt \<open>i\<close>, so the waits are 60, 90, 120, \<dots>; the
  first reply that is not a 429 ends the run at once: a response of any other status
  (200 included) is returned as it is, a transport failure is returned as an error, and
  in both cases no further request is made.
\<close>

theorem makeAPIRequest_backoff:
  assumes build: "buildRequest w url headers method jsonData = Inr req"
    and retry: "\<forall>j<k. is429 (clientDo w (length (sent fx) + j) req)"
    and left: "int k \<le> maxRetries"
    and last: "\<not> is429 (clientDo w (length (sent fx) + k) req)"
  shows "makeAPIRequest w url headers method jsonData maxRetries fx =
           ((case clientDo w (length (sent fx) + k) req of
               TransportError \<Rightarrow> Inl DoFailed
             | Response resp \<Rightarrow> Inr resp),
            fx\<lparr>sent := sent fx @ replicate (k + 1) req,
               slept := slept fx @ map (\<lambda>i. 60 + 30 * int i) [0..<k]\<rparr>)"
proof -
  have "attemptLoop w url headers method jsonData maxRetries 0 fx =
      (outcome (clientDo w (length (sent fx) + k) req),
       fx\<lparr>sent := sent fx @ replicate (Suc k) req,
          slept := slept fx @ map (\<lambda>i. 60 + 30 * (0 + int i)) [0..<k]\<rparr>)"
    using retry left last by (intro attemptLoop_run [OF build]) simp_all
  then show ?thesis
    by (simp add: makeAPIRequest_def outcome_def)
qed

theorem makeAPIRequest_backoff_witness:
  "makeAPIRequest (scripted [plainReply 429 [], plainReply 429 []] (plainReply 200 ''ok''))
       ''u'' [] ''GET'' None 3 noEffects =
     (Inr \<lparr>StatusCode = 200, bodyBytes = ''ok'', readFails = False\<rparr>,
      \<lparr>sent = replicate 3 (getRequest ''u'' []), slept = [60, 90]\<rparr>) \<and>
   makeAPIRequest (scripted [plainReply 429 []] TransportError) ''u'' [] ''GET'' None 3 noEffects =
     (Inl DoFailed, \<lparr>sent = replicate 2 (getRequest ''u'' []), slept = [60]\<rparr>) \<and>
   makeAPIRequest (scripted [] (plainReply 500 ''oops'')) ''u'' [] ''GET'' None 3 noEffects =
     (Inr \<lparr>StatusCode = 500, bodyBytes = ''oops'', readFails = False\<rparr>,
      \<lparr>sent = [getRequest ''u'' []], slept = []\<rparr>)"
proof -
  let ?w1 = "scripted [plainReply 429 [], plainReply 429 []] (plainReply 200 ''ok'')"
  let ?w2 = "scripted [plainReply 429 []] TransportError"
  let ?w3 = "scripted [] (plainReply 500 ''oops'')"
  have r1: "\<forall>j<2. is429 (clientDo ?w1 (length (sent noEffects) + j) (getRequest ''u'' []))"
    by (simp add: scripted_def plainReply_def is429_def noEffects_def nth_Cons split: nat.splits)
  have l1: "\<not> is429 (clientDo ?w1 (length (sent noEffects) + 2) (getRequest ''u'' []))"
    by (simp add: scripted_def plainReply_def is429_def noEffects_def)
  have r2: "\<forall>j<1. is429 (clientDo ?w2 (length (sent noEffects) + j) (getRequest ''u'' []))"
    by (simp add: scripted_def plainReply_def is429_def noEffects_def)
  have l2: "\<not> is429 (clientDo ?w2 (length (sent noEffects) + 1) (getRequest ''u'' []))"
    by (simp add: scripted_def is429_def noEffects_def)
  have r3: "\<forall>j<0. is429 (clientDo ?w3 (length (sent noEffects) + j) (getRequest ''u'' []))"
    by simp
  have l3: "\<not> is429 (clientDo ?w3 (length (sent noEffects) + 0) (getRequest ''u'' []))"
    by (simp add: scripted_def plainReply_def is429_def noEffects_def)
  from makeAPIRequest_backoff [OF buildRequest_scripted_GET r1 _ l1, of 3]
    makeAPIRequest_backoff [OF buildRequest_scripted_GET r2 _ l2, of 3]
    makeAPIRequest_backoff [OF buildRequest_scripted_GET r3 _ l3, of 3]
  show ?thesis
    by (simp add: noEffects_def scripted_def plainReply_def upt_conv_Cons eval_nat_numeral)
qed

section \<open>Properties of the series normalizer\<close>

lemma mset_insertBy: "mset (insertBy lt x xs) = add_mset x (mset xs)"
  by (induction xs) auto

lemma mset_insertionSort: "mset (insertionSort lt xs) = mset xs"
  by (induction xs) (auto simp: mset_insertBy)

lemma set_insertBy: "set (insertBy lt x xs) = insert x (set xs)"
  by (induction xs) auto

lemma sorted_insertBy:
  assumes "transitive_ordering lt" and "sorted_wrt (\<lambda>a b. \<not> lt b a) xs"
  shows "sorted_wrt (\<lambda>a b. \<not> lt b a) (insertBy lt x xs)"
  using assms(2)
proof (induction xs)
  case Nil
  then show ?case by simp
next
  case (Cons y ys)
  from assms(1) have asym: "\<And>a b. lt a b \<Longrightarrow> \<not> lt b a"
    and ntrans: "\<And>a b c. \<not> lt a b \<Longrightarrow> \<not> lt b c \<Longrightarrow> \<not> lt a c"
    unfolding transitive_ordering_def by blast+
  show ?case
  proof (cases "lt x y")
    case True
    then have "\<not> lt y x" by (rule asym)
    moreover have "\<forall>z\<in>set ys. \<not> lt z x"
      using Cons.prems \<open>\<not> lt y x\<close> ntrans by auto
    ultimately show ?thesis using True Cons.prems by simp
  next
    case False
    then show ?thesis using Cons by (auto simp: set_insertBy)
  qed
qed

lemma sorted_insertionSort:
  "transitive_ordering lt \<Longrightarrow> sorted_wrt (\<lambda>a b. \<not> lt b a) (insertionSort lt xs)"
  by (induction xs) (auto simp: sorted_insertBy)

lemma insertionSort_contract: "sortSlice_contract insertionSort"
  by (simp add: sortSlice_contract_def mset_insertionSort sorted_insertionSort)

lemma Before_ordering: "transitive_ordering (\<lambda>a b. Before (date a) (date b))"
  by (auto simp: transitive_ordering_def Before_def)

subsection \<open>Properties of the normalizer\<close>

lemma parseTime_Inr_iff: "(\<exists>d. parseTime lib s = Inr d) \<longleftrightarrow> parses lib s"
  by (auto simp: parseTime_def parses_def split: option.splits)

lemma fillRows_parsed:
  "\<forall>p\<in>set prices. parses lib (Time p) \<Longrightarrow>
   \<exists>data. fillRows lib prices = Inr data \<and> length data = length prices \<and>
     map (\<lambda>r. Inr (date r)) data = map (\<lambda>p. parseTime lib (Time p)) prices"
proof (induction prices)
  case Nil
  then show ?case by simp
next
  case (Cons p ps)
  then obtain data where data: "fillRows lib ps = Inr data" "length data = length ps"
    "map (\<lambda>r. Inr (date r)) data = map (\<lambda>p. parseTime lib (Time p)) ps"
    by auto
  from Cons.prems obtain d where d: "parseTime lib (Time p) = Inr d"
    using parseTime_Inr_iff [of lib "Time p"] by auto
  show ?case using data d by simp
qed

lemma fillRows_unparsed:
  "find (\<lambda>p. \<not> parses lib (Time p)) prices = Some q \<Longrightarrow>
   fillRows lib prices = Inl (ParseTimeFailed (Time q))"
proof (induction prices)
  case Nil
  then show ?case by simp
next
  case (Cons p ps)
  show ?case
  proof (cases "parses lib (Time p)")
    case True
    then obtain d where "parseTime lib (Time p) = Inr d"
      using parseTime_Inr_iff [of lib "Time p"] by auto
    moreover from True Cons.prems have "fillRows lib ps = Inl (ParseTimeFailed (Time q))"
      by (intro Cons.IH) simp
    ultimately show ?thesis by simp
  next
    case False
    with Cons.prems have "q = p" by simp
    with False show ?thesis
      by (simp add: parseTime_def parses_def)
  qed
qed

lemma sorted_rows_dates:
  "sorted_wrt (\<lambda>a b. \<not> Before (date b) (date a)) rows \<Longrightarrow> sorted (map unixNano (map date rows))"
  by (simp add: sorted_wrt_map Before_def not_less)

lemma length_toFrame:
  "length (Dates (toFrame rows)) = length rows \<and> length (dfOpen (toFrame rows)) = length rows \<and>
   length (dfClose (toFrame rows)) = length rows \<and> length (dfHigh (toFrame rows)) = length rows \<and>
   length (dfLow (toFrame rows)) = length rows \<and> length (dfVolume (toFrame rows)) = length rows"
  by (simp add: toFrame_def)

text \<open>
  Claim C4: when every timestamp parses in one of the two layouts, the conversion
  returns a table (no error) whose dates are non-decreasing and whose six columns all
  have the length of the input; and the empty list gives the empty table. The sorting
  routine is any routine that meets the contract of \<^verbatim>\<open>sort.Slice\<close>.
\<close>

theorem PricesToDataFrame_sorted_same_length:
  assumes contract: "sortSlice_contract (sortSlice lib)"
    and wellformed: "\<forall>p\<in>set prices. parses lib (Time p)"
  shows "(\<exists>df. PricesToDataFrame lib prices = Inr df \<and>
            sorted (map unixNano (Dates df)) \<and>
            length (Dates df) = length prices \<and> length (dfOpen df) = length prices \<and>
            length (dfClose df) = length prices \<and> length (dfHigh df) = length prices \<and>
            length (dfLow df) = length prices \<and> length (dfVolume df) = length prices) \<and>
         PricesToDataFrame lib [] =
           Inr \<lparr>Dates = [], dfOpen = [], dfClose = [], dfHigh = [], dfLow = [], dfVolume = []\<rparr>"
proof
  let ?lt = "\<lambda>a b :: 'a sortData. Before (date a) (date b)"
  from fillRows_parsed [OF wellformed] obtain data
    where data: "fillRows lib prices = Inr data" and len: "length data = length prices"
    by blast
  let ?rows = "sortSlice lib ?lt data"
  from contract Before_ordering have perm: "mset ?rows = mset data"
    and ord: "sorted_wrt (\<lambda>a b. \<not> ?lt b a) ?rows"
    unfolding sortSlice_contract_def by blast+
  from perm have "length ?rows = length data" by (rule mset_eq_length)
  with len have rows: "length ?rows = length prices" by simp
  show "\<exists>df. PricesToDataFrame lib prices = Inr df \<and>
            sorted (map unixNano (Dates df)) \<and>
            length (Dates df) = length prices \<and> length (dfOpen df) = length prices \<and>
            length (dfClose df) = length prices \<and> length (dfHigh df) = length prices \<and>
            length (dfLow df) = length prices \<and> length (dfVolume df) = length prices"
  proof (cases "prices = []")
    case True
    then show ?thesis by (simp add: PricesToDataFrame_def toFrame_def)
  next
    case False
    then have "PricesToDataFrame lib prices = Inr (toFrame ?rows)"
      by (simp add: PricesToDataFrame_def data)
    moreover have "sorted (map unixNano (Dates (toFrame ?rows)))"
      using sorted_rows_dates [OF ord] by (simp add: toFrame_def)
    ultimately show ?thesis using length_toFrame [of ?rows] rows by simp
  qed
next
  show "PricesToDataFrame lib [] =
      Inr \<lparr>Dates = [], dfOpen = [], dfClose = [], dfHigh = [], dfLow = [], dfVolume = []\<rparr>"
    by (simp add: PricesToDataFrame_def toFrame_def)
qed

lemma fixtureLib_contract: "sortSlice_contract (sortSlice fixtureLib)"
  by (simp add: fixtureLib_def insertionSort_contract)

theorem PricesToDataFrame_sorted_same_length_witness:
  "sortSlice_contract (sortSlice fixtureLib) \<and>
   parses fixtureLib ''2024-01-03T10:00:00Z'' \<and> parses fixtureLib ''2024-01-01'' \<and>
   PricesToDataFrame fixtureLib
       [flatPrice 3 ''2024-01-03T10:00:00Z'', flatPrice 1 ''2024-01-01''] =
     Inr \<lparr>Dates = [\<lparr>unixNano = 1704067200000000000, zoneOffset = 0\<rparr>,
                   \<lparr>unixNano = 1704276000000000000, zoneOffset = 0\<rparr>],
          dfOpen = [1, 3], dfClose = [1, 3], dfHigh = [1, 3], dfLow = [1, 3],
          dfVolume = [100, 100]\<rparr> \<and>
   (\<exists>df. PricesToDataFrame fixtureLib
       [flatPrice 3 ''2024-01-03T10:00:00Z'', flatPrice 1 ''2024-01-01''] = Inr df \<and>
     sorted (map unixNano (Dates df)) \<and> length (Dates df) = 2 \<and> length (dfVolume df) = 2)"
proof -
  let ?ps = "[flatPrice 3 ''2024-01-03T10:00:00Z'', flatPrice 1 ''2024-01-01'']"
  have p: "\<forall>p\<in>set ?ps. parses fixtureLib (Time p)"
    by (simp add: parses_def fixtureLib_def flatPrice_def)
  have v: "PricesToDataFrame fixtureLib ?ps =
     Inr \<lparr>Dates = [\<lparr>unixNano = 1704067200000000000, zoneOffset = 0\<rparr>,
                   \<lparr>unixNano = 1704276000000000000, zoneOffset = 0\<rparr>],
          dfOpen = [1, 3], dfClose = [1, 3], dfHigh = [1, 3], dfLow = [1, 3],
          dfVolume = [100, 100]\<rparr>"
    by (simp add: PricesToDataFrame_def fixtureLib_def flatPrice_def parseTime_def toFrame_def
        Before_def)
  from PricesToDataFrame_sorted_same_length [OF fixtureLib_contract p] v p fixtureLib_contract
  show ?thesis
    by (simp add: flatPrice_def)
qed




text \<open>
  Claim C6: each timestamp is parsed with the RFC 3339 layout first and with the
  date-only layout when that fails. If some record matches neither layout, the
  conversion returns the parse error of the first such record and no table. If the
  conversion returns a table, every record parsed, and the dates of the table are the
  RFC 3339 readings where there is one and the date-only readings elsewhere.
\<close>

theorem PricesToDataFrame_parse_or_abort:
  assumes contract: "sortSlice_contract (sortSlice lib)"
  shows "(\<forall>q. find (\<lambda>p. parseRFC3339 lib (Time p) = None \<and> parseDateOnly lib (Time p) = None)
                 prices = Some q \<longrightarrow>
            PricesToDataFrame lib prices = Inl (ParseTimeFailed (Time q))) \<and>
         (\<forall>df. PricesToDataFrame lib prices = Inr df \<longrightarrow>
            (\<forall>p\<in>set prices. parseRFC3339 lib (Time p) \<noteq> None \<or> parseDateOnly lib (Time p) \<noteq> None) \<and>
            mset (Dates df) =
              mset (map (\<lambda>p. case parseRFC3339 lib (Time p) of
                                Some d \<Rightarrow> d
                              | None \<Rightarrow> the (parseDateOnly lib (Time p))) prices))"
proof (intro conjI allI impI)
  fix q
  assume "find (\<lambda>p. parseRFC3339 lib (Time p) = None \<and> parseDateOnly lib (Time p) = None)
            prices = Some q"
  then have found: "find (\<lambda>p. \<not> parses lib (Time p)) prices = Some q"
    by (simp add: parses_def)
  then have "prices \<noteq> []" by auto
  with fillRows_unparsed [OF found]
  show "PricesToDataFrame lib prices = Inl (ParseTimeFailed (Time q))"
    by (simp add: PricesToDataFrame_def)
next
  fix df
  assume ok: "PricesToDataFrame lib prices = Inr df"
  have all: "\<forall>p\<in>set prices. parses lib (Time p)"
  proof (rule ccontr)
    assume "\<not> (\<forall>p\<in>set prices. parses lib (Time p))"
    then obtain q where q: "find (\<lambda>p. \<not> parses lib (Time p)) prices = Some q"
      by (cases "find (\<lambda>p. \<not> parses lib (Time p)) prices") (auto simp: find_None_iff)
    then have "prices \<noteq> []" by auto
    with fillRows_unparsed [OF q] ok show False
      by (simp add: PricesToDataFrame_def)
  qed
  then show "\<forall>p\<in>set prices. parseRFC3339 lib (Time p) \<noteq> None \<or> parseDateOnly lib (Time p) \<noteq> None"
    by (simp add: parses_def)
  let ?pick = "\<lambda>p. case parseRFC3339 lib (Time p) of
                      Some d \<Rightarrow> d | None \<Rightarrow> the (parseDateOnly lib (Time p))"
  from fillRows_parsed [OF all] obtain data
    where data: "fillRows lib prices = Inr data"
      and dates: "map (\<lambda>r. Inr (date r)) data = map (\<lambda>p. parseTime lib (Time p)) prices"
    by blast
  have "\<forall>p\<in>set prices. parseTime lib (Time p) = Inr (?pick p)"
    using all by (auto simp: parseTime_def parses_def split: option.splits)
  then have "map (\<lambda>p. parseTime lib (Time p)) prices = map (\<lambda>p. Inr (?pick p)) prices"
    by simp
  with dates have "map Inr (map date data) = (map Inr (map ?pick prices) :: (error + time_Time) list)"
    by (simp add: comp_def)
  then have picked: "map date data = map ?pick prices"
    by (simp only: inj_map_eq_map [OF inj_Inr])
  show "mset (Dates df) = mset (map ?pick prices)"
  proof (cases "prices = []")
    case True
    with ok show ?thesis by (auto simp: PricesToDataFrame_def toFrame_def)
  next
    case False
    let ?rows = "sortSlice lib (\<lambda>a b. Before (date a) (date b)) data"
    from contract Before_ordering have "mset ?rows = mset data"
      unfolding sortSlice_contract_def by blast
    then have "mset (map date ?rows) = mset (map date data)"
      by (metis mset_map)
    moreover from False ok data have "Dates df = map date ?rows"
      by (auto simp: PricesToDataFrame_def toFrame_def)
    ultimately show ?thesis using picked by simp
  qed
qed

theorem PricesToDataFrame_parse_or_abort_witness:
  "PricesToDataFrame fixtureLib
       [flatPrice 1 ''2024-01-02'', flatPrice 2 ''yesterday'', flatPrice 3 ''02/01/2024''] =
     Inl (ParseTimeFailed ''yesterday'') \<and>
   mset (Dates (toFrame (insertionSort (\<lambda>a b. Before (date a) (date b))
      [\<lparr>date = \<lparr>unixNano = 1704276000000000000, zoneOffset = 0\<rparr>, open' = 5, close = 5,
         high = 5, low = 5, volume = 100\<rparr>] :: int sortData list))) =
     {#\<lparr>unixNano = 1704276000000000000, zoneOffset = 0\<rparr>#} \<and>
   PricesToDataFrame fixtureLib [flatPrice 5 ''2024-01-03T10:00:00Z''] =
     Inr (toFrame [\<lparr>date = \<lparr>unixNano = 1704276000000000000, zoneOffset = 0\<rparr>, open' = 5,
       close = 5, high = 5, low = 5, volume = 100\<rparr>])"
proof -
  let ?bad = "[flatPrice 1 ''2024-01-02'', flatPrice 2 ''yesterday'', flatPrice 3 ''02/01/2024'']"
  let ?good = "[flatPrice 5 ''2024-01-03T10:00:00Z'']"
  have f: "find (\<lambda>p. parseRFC3339 fixtureLib (Time p) = None \<and>
      parseDateOnly fixtureLib (Time p) = None) ?bad = Some (flatPrice 2 ''yesterday'')"
    by (simp add: fixtureLib_def flatPrice_def)
  have g: "PricesToDataFrame fixtureLib ?good =
      Inr (toFrame [\<lparr>date = \<lparr>unixNano = 1704276000000000000, zoneOffset = 0\<rparr>, open' = 5,
        close = 5, high = 5, low = 5, volume = 100\<rparr>])"
    by (simp add: PricesToDataFrame_def fixtureLib_def flatPrice_def parseTime_def)
  from PricesToDataFrame_parse_or_abort [OF fixtureLib_contract, of ?bad] f
  have 1: "PricesToDataFrame fixtureLib ?bad = Inl (ParseTimeFailed ''yesterday'')"
    by (simp add: flatPrice_def)
  from PricesToDataFrame_parse_or_abort [OF fixtureLib_contract, of ?good] g
  have 2: "mset (Dates (toFrame [\<lparr>date = \<lparr>unixNano = 1704276000000000000, zoneOffset = 0\<rparr>,
      open' = 5, close = 5, high = 5, low = 5, volume = 100 :: 64 word\<rparr> :: int sortData])) =
      {#\<lparr>unixNano = 1704276000000000000, zoneOffset = 0\<rparr>#}"
    by (simp add: fixtureLib_def flatPrice_def toFrame_def)
  from 1 2 g show ?thesis by simp
qed

section \<open>Properties of the paginated aggregators\<close>

subsection \<open>What the retry client sends\<close>

lemma attemptLoop_sent:
  "\<exists>new. sent (snd (attemptLoop w url headers meth jsonData maxRetries attempt fx0)) =
           sent fx0 @ new \<and>
         (\<forall>r\<in>set new. buildRequest w url headers meth jsonData = Inr r)"
proof (induction w url headers meth jsonData maxRetries attempt fx0 rule: attemptLoop.induct)
  case (1 w url headers meth jsonData maxRetries attempt fx0)
  show ?case
  proof (cases "attempt \<le> maxRetries")
    case False
    then show ?thesis by (subst attemptLoop.simps) simp
  next
    case budget: True
    show ?thesis
    proof (cases "buildRequest w url headers meth jsonData")
      case (Inl e)
      with budget show ?thesis by (subst attemptLoop.simps) simp
    next
      case (Inr req)
      show ?thesis
      proof (cases "clientDo w (length (sent fx0)) req")
        case TransportError
        with budget Inr show ?thesis by (subst attemptLoop.simps) simp
      next
        case (Response resp)
        show ?thesis
        proof (cases "StatusCode resp = 429 \<and> attempt < maxRetries")
          case False
          with budget Inr Response show ?thesis by (subst attemptLoop.simps) auto
        next
          case True
          from "1.IH" [OF budget Inr Response True]
          obtain new where
            "sent (snd (attemptLoop w url headers meth jsonData maxRetries (attempt + 1)
               (fx0\<lparr>sent := sent fx0 @ [req], slept := slept fx0 @ [60 + 30 * attempt]\<rparr>))) =
             sent fx0 @ [req] @ new" and "\<forall>r\<in>set new. r = req"
            using Inr by auto
          with budget Inr Response True show ?thesis
            by (subst attemptLoop.simps) (auto intro!: exI [where x = "req # new"])
        qed
      qed
    qed
  qed
qed

lemma buildRequest_GET:
  "buildRequest w url headers ''GET'' None = Inr r \<Longrightarrow> r = getRequest url headers"
  by (auto simp: buildRequest_def getRequest_def split: if_splits)

lemma fetchPage_sent:
  "\<exists>new. sent (snd (fetchPage w decode ticker headers url fx0)) = sent fx0 @ new \<and>
         (\<forall>r\<in>set new. r = getRequest url headers)"
proof -
  have "snd (fetchPage w decode ticker headers url fx0) =
      snd (makeAPIRequest w url headers ''GET'' None 3 fx0)"
    by (auto simp: fetchPage_def split: prod.splits sum.splits option.splits)
  then show ?thesis
    using attemptLoop_sent [of w url headers "''GET''" None 3 0 fx0]
    by (auto simp: makeAPIRequest_def dest: buildRequest_GET)
qed

lemma effectsOf_pageStep:
  "effectsOf (pageStep w decode dateOf mkURL ticker headers startDate limit st) =
     snd (fetchPage w decode ticker headers (mkURL (currentEndDate st)) (effs st))"
  by (auto simp: pageStep_def effectsOf_def Let_def
      split: prod.splits sum.splits list.splits option.splits)

lemma pageLoop_sent:
  "\<exists>new. sent (effectsOf (pageLoop (pageStep w decode dateOf mkURL ticker headers startDate limit) n st)) =
           sent (effs st) @ new \<and> (\<forall>r\<in>set new. \<exists>c. r = getRequest (mkURL c) headers)"
proof (induction n arbitrary: st)
  case 0
  then show ?case by (simp add: effectsOf_def)
next
  case (Suc n)
  let ?step = "pageStep w decode dateOf mkURL ticker headers startDate limit"
  from fetchPage_sent [of w decode ticker headers "mkURL (currentEndDate st)" "effs st"]
  obtain new where new: "sent (effectsOf (?step st)) = sent (effs st) @ new"
    "\<forall>r\<in>set new. r = getRequest (mkURL (currentEndDate st)) headers"
    unfolding effectsOf_pageStep by blast
  show ?case
  proof (cases "?step st")
    case (Stop r fx')
    with new show ?thesis by auto
  next
    case (Continue st')
    from Suc.IH [of st'] obtain more where
      more: "sent (effectsOf (pageLoop ?step n st')) = sent (effs st') @ more"
      "\<forall>r\<in>set more. \<exists>c. r = getRequest (mkURL c) headers"
      by blast
    from new Continue have "sent (effs st') = sent (effs st) @ new" by (simp add: effectsOf_def)
    with more new Continue show ?thesis
      by (auto intro!: exI [where x = "new @ more"])
  qed
qed

subsection \<open>One iteration\<close>

lemma oldest_fold:
  "foldl (\<lambda>minDate r. if dateOf r < minDate then dateOf r else minDate) (a :: string) page =
     Min (insert a (dateOf ` set page))"
proof (induction page arbitrary: a)
  case Nil
  then show ?case by simp
next
  case (Cons r rs)
  have "(if dateOf r < a then dateOf r else a) = min a (dateOf r)"
    by (auto simp: min_def)
  moreover have "Min (insert (min a (dateOf r)) (dateOf ` set rs)) =
      Min (insert a (insert (dateOf r) (dateOf ` set rs)))"
    by (cases "rs = []") (simp_all add: min.assoc)
  ultimately show ?case using Cons.IH by simp
qed

lemma oldestDate_Min:
  "oldestDate dateOf first (first # rest) = Min (dateOf ` set (first # rest))"
  unfolding oldestDate_def oldest_fold by simp

lemma pageStep_bounded:
  assumes "fetchPage w decode ticker headers (mkURL (currentEndDate st)) (effs st) = (Inr page, fx')"
  shows "pageStep w decode dateOf mkURL ticker headers (Some start) limit st =
     (if page = [] \<or> int (length page) < limit \<or> dateOnly (Min (dateOf ` set page)) \<le> start
      then Stop (Inr (allRecords st @ page)) fx'
      else Continue \<lparr>effs = fx', currentEndDate = dateOnly (Min (dateOf ` set page)),
                     allRecords = allRecords st @ page\<rparr>)"
proof (cases page)
  case Nil
  with assms show ?thesis by (simp add: pageStep_def)
next
  case (Cons first rest)
  with assms show ?thesis
    unfolding pageStep_def by (simp add: Let_def oldestDate_Min del: set_simps image_insert)
qed

lemma pageStep_unbounded:
  "pageStep w decode dateOf mkURL ticker headers None limit st =
     (case fetchPage w decode ticker headers (mkURL (currentEndDate st)) (effs st) of
        (Inl e, fx') \<Rightarrow> Stop (Inl e) fx'
      | (Inr page, fx') \<Rightarrow> Stop (Inr (allRecords st @ page)) fx')"
  by (auto simp: pageStep_def split: prod.splits sum.splits list.splits)

subsection \<open>The loop\<close>

lemma pageLoop_add:
  "pageLoop step (k + n) st =
     (case pageLoop step k st of Continue st' \<Rightarrow> pageLoop step n st' | Stop r f \<Rightarrow> Stop r f)"
  by (induction k arbitrary: st) (auto split: outcome.splits)

lemma finite_short_strings: "finite {s :: string. length s \<le> N}"
  using finite_lists_length_le [of "UNIV :: char set" N] by simp

lemma pageLoop_terminates:
  assumes older: "\<And>k st st'. pageLoop step k init = Continue st \<Longrightarrow> step st = Continue st' \<Longrightarrow>
      currentEndDate st' < currentEndDate st \<and> length (currentEndDate st') \<le> N"
  shows "\<exists>n r f. pageLoop step n init = Stop r f"
proof -
  have "\<exists>n r f. pageLoop step (k + n) init = Stop r f"
    if "pageLoop step k init = Continue st" for k st
    using that
  proof (induction "card {s. length s \<le> N \<and> s < currentEndDate st}" arbitrary: k st
      rule: less_induct)
    case less
    show ?case
    proof (cases "step st")
      case (Stop r f)
      with less.prems have "pageLoop step (k + 1) init = Stop r f"
        by (subst pageLoop_add) simp
      then show ?thesis by blast
    next
      case (Continue st')
      from older [OF less.prems Continue]
      have lt: "currentEndDate st' < currentEndDate st" and len: "length (currentEndDate st') \<le> N"
        by simp_all
      have "{s. length s \<le> N \<and> s < currentEndDate st'} \<subset> {s. length s \<le> N \<and> s < currentEndDate st}"
        using lt len by auto
      moreover have "finite {s. length s \<le> N \<and> s < currentEndDate st}"
        using finite_short_strings [of N] by (rule rev_finite_subset) auto
      ultimately have smaller: "card {s. length s \<le> N \<and> s < currentEndDate st'} <
          card {s. length s \<le> N \<and> s < currentEndDate st}"
        by (simp add: psubset_card_mono)
      from less.prems Continue have "pageLoop step (k + 1) init = Continue st'"
        by (subst pageLoop_add) simp
      from less.hyps [OF smaller this] obtain n r f
        where "pageLoop step (k + 1 + n) init = Stop r f" by blast
      then have "pageLoop step (k + (1 + n)) init = Stop r f" by (simp add: add.assoc)
      then show ?thesis by blast
    qed
  qed
  from this [of 0 init] show ?thesis by simp
qed

lemma pageStep_Continue:
  assumes "pageStep w decode dateOf mkURL ticker headers (Some start) limit st = Continue st'"
  shows "\<exists>page fx'. fetchPage w decode ticker headers (mkURL (currentEndDate st)) (effs st) =
             (Inr page, fx') \<and> page \<noteq> [] \<and>
           currentEndDate st' = dateOnly (Min (dateOf ` set page))"
proof (cases "fetchPage w decode ticker headers (mkURL (currentEndDate st)) (effs st)")
  case (Pair r fx')
  show ?thesis
  proof (cases r)
    case (Inl e)
    with Pair assms show ?thesis by (simp add: pageStep_def)
  next
    case (Inr page)
    with Pair have "fetchPage w decode ticker headers (mkURL (currentEndDate st)) (effs st) =
        (Inr page, fx')" by simp
    then have "pageStep w decode dateOf mkURL ticker headers (Some start) limit st =
        (if page = [] \<or> int (length page) < limit \<or> dateOnly (Min (dateOf ` set page)) \<le> start
         then Stop (Inr (allRecords st @ page)) fx'
         else Continue \<lparr>effs = fx', currentEndDate = dateOnly (Min (dateOf ` set page)),
                        allRecords = allRecords st @ page\<rparr>)"
      by (rule pageStep_bounded)
    with assms \<open>fetchPage w decode ticker headers (mkURL (currentEndDate st)) (effs st) =
        (Inr page, fx')\<close> show ?thesis
      by (auto split: if_splits)
  qed
qed

lemma pagination_terminates:
  fixes w decode dateOf mkURL ticker headers start limit init
  defines "step \<equiv> pageStep w decode dateOf mkURL ticker headers (Some start) limit"
  assumes older: "\<forall>k st page fx'. pageLoop step k init = Continue st \<longrightarrow>
      fetchPage w decode ticker headers (mkURL (currentEndDate st)) (effs st) = (Inr page, fx') \<longrightarrow>
      page \<noteq> [] \<longrightarrow>
      dateOnly (Min (dateOf ` set page)) < currentEndDate st \<and>
      length (dateOnly (Min (dateOf ` set page))) \<le> N"
  shows "\<exists>n y. returned (pageLoop step n init) = Some y"
proof -
  have "\<exists>n r f. pageLoop step n init = Stop r f"
  proof (rule pageLoop_terminates)
    fix k st st'
    assume run: "pageLoop step k init = Continue st" and cont: "step st = Continue st'"
    from cont obtain page fx' where
      "fetchPage w decode ticker headers (mkURL (currentEndDate st)) (effs st) = (Inr page, fx')"
      "page \<noteq> []" "currentEndDate st' = dateOnly (Min (dateOf ` set page))"
      unfolding step_def by (blast dest: pageStep_Continue)
    with older run show "currentEndDate st' < currentEndDate st \<and> length (currentEndDate st') \<le> N"
      by metis
  qed
  then obtain n r f where "pageLoop step n init = Stop r f" by blast
  then have "returned (pageLoop step n init) = Some (r, f)" by (simp add: returned_def)
  then show ?thesis by blast
qed

lemma pageLoop_empty_page:
  fixes w decode dateOf mkURL ticker headers startDate limit init
  defines "step \<equiv> pageStep w decode dateOf mkURL ticker headers startDate limit"
  assumes "pageLoop step k init = Continue st"
    and "fetchPage w decode ticker headers (mkURL (currentEndDate st)) (effs st) = (Inr [], fx')"
  shows "returned (pageLoop step (Suc k) init) = Some (Inr (allRecords st), fx')"
proof -
  have "step st = Stop (Inr (allRecords st)) fx'"
    using assms(3) by (simp add: step_def pageStep_def)
  with assms(2) have "pageLoop step (k + 1) init = Stop (Inr (allRecords st)) fx'"
    by (subst pageLoop_add) simp
  then show ?thesis by (simp add: returned_def)
qed

lemma fetchPage_pagedWorld:
  assumes "length (sent fx0) \<le> 2"
  shows "fetchPage pagedWorld decode ticker headers url fx0 =
     (case decode ([''A'', ''B'', ''E''] ! length (sent fx0)) of
        None \<Rightarrow> (Inl DecodeFailed, fx0\<lparr>sent := sent fx0 @ [getRequest url headers]\<rparr>)
      | Some page \<Rightarrow> (Inr page, fx0\<lparr>sent := sent fx0 @ [getRequest url headers]\<rparr>))"
proof -
  let ?body = "[''A'', ''B'', ''E''] ! length (sent fx0)"
  from assms consider "length (sent fx0) = 0" | "length (sent fx0) = 1" | "length (sent fx0) = 2"
    by linarith
  then have reply: "clientDo pagedWorld (length (sent fx0)) (getRequest url headers) =
      plainReply 200 ?body"
    by cases (simp_all add: pagedWorld_def scripted_def)
  have "attemptLoop pagedWorld url headers ''GET'' None 3 0 fx0 =
      (outcome (clientDo pagedWorld (length (sent fx0) + 0) (getRequest url headers)),
       fx0\<lparr>sent := sent fx0 @ replicate (Suc 0) (getRequest url headers),
           slept := slept fx0 @ map (\<lambda>i. 60 + 30 * (0 + int i)) [0..<0]\<rparr>)"
  proof (rule attemptLoop_run)
    show "buildRequest pagedWorld url headers ''GET'' None = Inr (getRequest url headers)"
      by (simp add: pagedWorld_def buildRequest_scripted_GET)
  qed (simp_all add: reply plainReply_def is429_def)
  then show ?thesis
    by (simp add: fetchPage_def makeAPIRequest_def reply outcome_def plainReply_def)
qed

lemma showInt_2: "showInt 2 = ''2''"
  by (simp add: showInt_def digitsOf.simps)

lemma apiHeaders_pagedWorld: "apiHeaders pagedWorld [] = []"
  by (simp add: apiHeaders_def pagedWorld_def scripted_def)

lemma FilingDate_filing: "FilingDate (filing d) = d"
  by (simp add: filing_def)

lemma DateTime_article: "DateTime (article d) = d"
  by (simp add: article_def)

lemmas fixture_simps =
  insiderTradesStep_def companyNewsStep_def pageStep_def fetchPage_pagedWorld noEffects_def
  fixtureDecoders_def apiHeaders_pagedWorld insiderTradesURL_def newsURL_def showInt_2
  tradesLTE_def newsLTE_def oldestDate_def dateOnly_def FilingDate_filing DateTime_article
  Let_def tradesState_def newsState_def

lemma tradesStep_fixture:
  "insiderTradesStep pagedWorld fixtureDecoders ''AAPL'' (Some ''2024-01-01'') 2 [] (tradesState 0) =
     Continue (tradesState 1)"
  "insiderTradesStep pagedWorld fixtureDecoders ''AAPL'' (Some ''2024-01-01'') 2 [] (tradesState 1) =
     Continue (tradesState 2)"
  "insiderTradesStep pagedWorld fixtureDecoders ''AAPL'' (Some ''2024-01-01'') 2 [] (tradesState 2) =
     Stop (Inr (allRecords (tradesState 2)))
       \<lparr>sent = [tradesLTE ''2024-01-10'', tradesLTE ''2024-01-04'', tradesLTE ''2024-01-02''],
        slept = []\<rparr>"
  by (simp_all add: fixture_simps)

lemma newsStep_fixture:
  "companyNewsStep pagedWorld fixtureDecoders ''AAPL'' (Some ''2024-01-01'') 2 [] (newsState 0) =
     Continue (newsState 1)"
  "companyNewsStep pagedWorld fixtureDecoders ''AAPL'' (Some ''2024-01-01'') 2 [] (newsState 1) =
     Continue (newsState 2)"
  "companyNewsStep pagedWorld fixtureDecoders ''AAPL'' (Some ''2024-01-01'') 2 [] (newsState 2) =
     Stop (Inr (allRecords (newsState 2)))
       \<lparr>sent = [newsLTE ''2024-01-10'', newsLTE ''2024-01-04'', newsLTE ''2024-01-02''],
        slept = []\<rparr>"
  by (simp_all add: fixture_simps)

lemma three_or_more:
  obtains "k = 0" | "k = Suc 0" | "k = Suc (Suc 0)" | m where "k = Suc (Suc (Suc 0)) + m"
proof (cases "k < 3")
  case True
  then have "k = 0 \<or> k = Suc 0 \<or> k = Suc (Suc 0)" by arith
  with that show ?thesis by blast
next
  case False
  then have "k = Suc (Suc (Suc 0)) + (k - 3)" by arith
  with that show ?thesis by blast
qed

lemma pageLoop_fixture:
  assumes "step s0 = Continue s1" "step s1 = Continue s2" "step s2 = Stop r f"
  shows "pageLoop step k s0 =
    (if k = 0 then Continue s0 else if k = 1 then Continue s1 else if k = 2 then Continue s2
     else Stop r f)"
proof (cases k rule: three_or_more)
  case (4 m)
  have "pageLoop step (Suc (Suc (Suc 0))) s0 = Stop r f"
    using assms by simp
  then have "pageLoop step (Suc (Suc (Suc 0)) + m) s0 = Stop r f"
    by (subst pageLoop_add) (simp only: outcome.case)
  with 4 show ?thesis by simp
qed (simp_all add: assms)

lemma tradesRun_fixture:
  "insiderTradesRun k pagedWorld fixtureDecoders ''AAPL'' ''2024-01-10'' (Some ''2024-01-01'') 2 []
      noEffects =
    (if k = 0 then Continue (tradesState 0) else if k = 1 then Continue (tradesState 1)
     else if k = 2 then Continue (tradesState 2)
     else Stop (Inr (allRecords (tradesState 2)))
       \<lparr>sent = [tradesLTE ''2024-01-10'', tradesLTE ''2024-01-04'', tradesLTE ''2024-01-02''],
        slept = []\<rparr>)"
proof -
  have init: "\<lparr>effs = noEffects, currentEndDate = ''2024-01-10'', allRecords = []\<rparr> = tradesState 0"
    by (simp add: tradesState_def)
  show ?thesis
    unfolding insiderTradesRun_def init
    by (rule pageLoop_fixture) (rule tradesStep_fixture)+
qed

lemma newsRun_fixture:
  "companyNewsRun k pagedWorld fixtureDecoders ''AAPL'' ''2024-01-10'' (Some ''2024-01-01'') 2 []
      noEffects =
    (if k = 0 then Continue (newsState 0) else if k = 1 then Continue (newsState 1)
     else if k = 2 then Continue (newsState 2)
     else Stop (Inr (allRecords (newsState 2)))
       \<lparr>sent = [newsLTE ''2024-01-10'', newsLTE ''2024-01-04'', newsLTE ''2024-01-02''],
        slept = []\<rparr>)"
proof -
  have init: "\<lparr>effs = noEffects, currentEndDate = ''2024-01-10'', allRecords = []\<rparr> = newsState 0"
    by (simp add: newsState_def)
  show ?thesis
    unfolding companyNewsRun_def init
    by (rule pageLoop_fixture) (rule newsStep_fixture)+
qed

lemma older_trades_fixture:
  "\<forall>k st page fx'.
      insiderTradesRun k pagedWorld fixtureDecoders ''AAPL'' ''2024-01-10'' (Some ''2024-01-01'') 2 []
        noEffects = Continue st \<longrightarrow>
      fetchPage pagedWorld (decodeInsiderTrades fixtureDecoders) ''AAPL'' (apiHeaders pagedWorld [])
        (insiderTradesURL ''AAPL'' (Some ''2024-01-01'') ''none'' (if (2 :: int) = 0 then 1000 else 2)
           (currentEndDate st)) (effs st) = (Inr page, fx') \<longrightarrow>
      page \<noteq> [] \<longrightarrow>
      dateOnly (Min (FilingDate ` set page)) < currentEndDate st \<and>
      length (dateOnly (Min (FilingDate ` set page))) \<le> 10"
proof (intro allI impI)
  fix k st page fx'
  assume run: "insiderTradesRun k pagedWorld fixtureDecoders ''AAPL'' ''2024-01-10''
      (Some ''2024-01-01'') 2 [] noEffects = Continue st"
    and fetch: "fetchPage pagedWorld (decodeInsiderTrades fixtureDecoders) ''AAPL''
      (apiHeaders pagedWorld [])
      (insiderTradesURL ''AAPL'' (Some ''2024-01-01'') ''none'' (if (2 :: int) = 0 then 1000 else 2)
         (currentEndDate st)) (effs st) = (Inr page, fx')"
    and page: "page \<noteq> []"
  from run have "st = tradesState 0 \<or> st = tradesState 1 \<or> st = tradesState 2"
    by (auto simp: tradesRun_fixture split: if_splits)
  with fetch page
  show "dateOnly (Min (FilingDate ` set page)) < currentEndDate st \<and>
      length (dateOnly (Min (FilingDate ` set page))) \<le> 10"
    by (auto simp: fixture_simps)
qed

lemma older_news_fixture:
  "\<forall>k st page fx'.
      companyNewsRun k pagedWorld fixtureDecoders ''AAPL'' ''2024-01-10'' (Some ''2024-01-01'') 2 []
        noEffects = Continue st \<longrightarrow>
      fetchPage pagedWorld (decodeNews fixtureDecoders) ''AAPL'' (apiHeaders pagedWorld [])
        (newsURL ''AAPL'' (Some ''2024-01-01'') ''none'' (if (2 :: int) = 0 then 1000 else 2)
           (currentEndDate st)) (effs st) = (Inr page, fx') \<longrightarrow>
      page \<noteq> [] \<longrightarrow>
      dateOnly (Min (DateTime ` set page)) < currentEndDate st \<and>
      length (dateOnly (Min (DateTime ` set page))) \<le> 10"
proof (intro allI impI)
  fix k st page fx'
  assume run: "companyNewsRun k pagedWorld fixtureDecoders ''AAPL'' ''2024-01-10''
      (Some ''2024-01-01'') 2 [] noEffects = Continue st"
    and fetch: "fetchPage pagedWorld (decodeNews fixtureDecoders) ''AAPL''
      (apiHeaders pagedWorld [])
      (newsURL ''AAPL'' (Some ''2024-01-01'') ''none'' (if (2 :: int) = 0 then 1000 else 2)
         (currentEndDate st)) (effs st) = (Inr page, fx')"
    and page: "page \<noteq> []"
  from run have "st = newsState 0 \<or> st = newsState 1 \<or> st = newsState 2"
    by (auto simp: newsRun_fixture split: if_splits)
  with fetch page
  show "dateOnly (Min (DateTime ` set page)) < currentEndDate st \<and>
      length (dateOnly (Min (DateTime ` set page))) \<le> 10"
    by (auto simp: fixture_simps)
qed

subsection \<open>The pagination claims\<close>

text \<open>
  Claim C7: in bounded mode (a start date is given) an iteration that has fetched a
  page stops exactly when the page is empty, or has fewer than \<open>limit\<close> records, or the
  new cursor (the least date of the page, cut at the time of day) is at or before the
  start date; otherwise it goes on with that cursor. In unbounded mode (no start date)
  the whole call is one page fetch, whose records or error are returned as they are.
  Both hold for \<^verbatim>\<open>GetInsiderTrades\<close> and for \<^verbatim>\<open>GetCompanyNews\<close>.
\<close>

theorem pagination_stop_conditions:
  "(fetchPage w (decodeInsiderTrades dec) ticker (apiHeaders w apiKey)
        (insiderTradesURL ticker (Some start) ''none'' (if limit = 0 then 1000 else limit)
           (currentEndDate st)) (effs st) = (Inr page, fx') \<longrightarrow>
      insiderTradesStep w dec ticker (Some start) limit apiKey st =
        (if page = [] \<or> int (length page) < (if limit = 0 then 1000 else limit) \<or>
            dateOnly (Min (FilingDate ` set page)) \<le> start
         then Stop (Inr (allRecords st @ page)) fx'
         else Continue \<lparr>effs = fx', currentEndDate = dateOnly (Min (FilingDate ` set page)),
                        allRecords = allRecords st @ page\<rparr>)) \<and>
   (fetchPage w (decodeNews dec) ticker (apiHeaders w apiKey)
        (newsURL ticker (Some start) ''none'' (if limit = 0 then 1000 else limit)
           (currentEndDate nst)) (effs nst) = (Inr npage, nfx') \<longrightarrow>
      companyNewsStep w dec ticker (Some start) limit apiKey nst =
        (if npage = [] \<or> int (length npage) < (if limit = 0 then 1000 else limit) \<or>
            dateOnly (Min (DateTime ` set npage)) \<le> start
         then Stop (Inr (allRecords nst @ npage)) nfx'
         else Continue \<lparr>effs = nfx', currentEndDate = dateOnly (Min (DateTime ` set npage)),
                        allRecords = allRecords nst @ npage\<rparr>)) \<and>
   GetInsiderTrades (Suc n) w dec ticker endDate None limit apiKey fxStart =
     Some (fetchPage w (decodeInsiderTrades dec) ticker (apiHeaders w apiKey)
       (''https://api.financialdatasets.ai/insider-trades/?ticker='' @ ticker @
        ''&filing_date_lte='' @ endDate @ ''&limit='' @
        showInt (if limit = 0 then 1000 else limit)) fxStart) \<and>
   GetCompanyNews (Suc n) w dec ticker endDate None limit apiKey fxStart =
     Some (fetchPage w (decodeNews dec) ticker (apiHeaders w apiKey)
       (''https://api.financialdatasets.ai/news/?ticker='' @ ticker @
        ''&end_date='' @ endDate @ ''&limit='' @
        showInt (if limit = 0 then 1000 else limit)) fxStart)"
proof (intro conjI impI)
  assume "fetchPage w (decodeInsiderTrades dec) ticker (apiHeaders w apiKey)
        (insiderTradesURL ticker (Some start) ''none'' (if limit = 0 then 1000 else limit)
           (currentEndDate st)) (effs st) = (Inr page, fx')"
  then show "insiderTradesStep w dec ticker (Some start) limit apiKey st =
        (if page = [] \<or> int (length page) < (if limit = 0 then 1000 else limit) \<or>
            dateOnly (Min (FilingDate ` set page)) \<le> start
         then Stop (Inr (allRecords st @ page)) fx'
         else Continue \<lparr>effs = fx', currentEndDate = dateOnly (Min (FilingDate ` set page)),
                        allRecords = allRecords st @ page\<rparr>)"
    unfolding insiderTradesStep_def Let_def
    by (simp only: option.simps if_False) (rule pageStep_bounded)
next
  assume "fetchPage w (decodeNews dec) ticker (apiHeaders w apiKey)
        (newsURL ticker (Some start) ''none'' (if limit = 0 then 1000 else limit)
           (currentEndDate nst)) (effs nst) = (Inr npage, nfx')"
  then show "companyNewsStep w dec ticker (Some start) limit apiKey nst =
        (if npage = [] \<or> int (length npage) < (if limit = 0 then 1000 else limit) \<or>
            dateOnly (Min (DateTime ` set npage)) \<le> start
         then Stop (Inr (allRecords nst @ npage)) nfx'
         else Continue \<lparr>effs = nfx', currentEndDate = dateOnly (Min (DateTime ` set npage)),
                        allRecords = allRecords nst @ npage\<rparr>)"
    unfolding companyNewsStep_def Let_def
    by (simp only: option.simps if_False) (rule pageStep_bounded)
next
  show "GetInsiderTrades (Suc n) w dec ticker endDate None limit apiKey fxStart =
     Some (fetchPage w (decodeInsiderTrades dec) ticker (apiHeaders w apiKey)
       (''https://api.financialdatasets.ai/insider-trades/?ticker='' @ ticker @
        ''&filing_date_lte='' @ endDate @ ''&limit='' @
        showInt (if limit = 0 then 1000 else limit)) fxStart)"
    by (simp add: GetInsiderTrades_def insiderTradesRun_def insiderTradesStep_def Let_def
        pageStep_unbounded insiderTradesURL_def returned_def
        split: prod.splits sum.splits)
next
  show "GetCompanyNews (Suc n) w dec ticker endDate None limit apiKey fxStart =
     Some (fetchPage w (decodeNews dec) ticker (apiHeaders w apiKey)
       (''https://api.financialdatasets.ai/news/?ticker='' @ ticker @
        ''&end_date='' @ endDate @ ''&limit='' @
        showInt (if limit = 0 then 1000 else limit)) fxStart)"
    by (simp add: GetCompanyNews_def companyNewsRun_def companyNewsStep_def Let_def
        pageStep_unbounded newsURL_def returned_def
        split: prod.splits sum.splits)
qed

theorem pagination_stop_conditions_witness:
  "insiderTradesStep pagedWorld fixtureDecoders ''AAPL'' (Some ''2024-01-01'') 2 [] (tradesState 0) =
     Continue (tradesState 1) \<and>
   companyNewsStep pagedWorld fixtureDecoders ''AAPL'' (Some ''2024-01-01'') 2 [] (newsState 2) =
     Stop (Inr (allRecords (newsState 2)))
       \<lparr>sent = [newsLTE ''2024-01-10'', newsLTE ''2024-01-04'', newsLTE ''2024-01-02''],
        slept = []\<rparr> \<and>
   GetInsiderTrades 1 pagedWorld fixtureDecoders ''AAPL'' ''2024-01-10'' None 2 [] noEffects =
     Some (Inr [filing ''2024-01-05T09:00:00'', filing ''2024-01-04''],
       \<lparr>sent = [getRequest
          ''https://api.financialdatasets.ai/insider-trades/?ticker=AAPL&filing_date_lte=2024-01-10&limit=2''
          []], slept = []\<rparr>) \<and>
   GetCompanyNews 1 pagedWorld fixtureDecoders ''AAPL'' ''2024-01-10'' None 2 [] noEffects =
     Some (Inr [article ''2024-01-05T09:00:00'', article ''2024-01-04''],
       \<lparr>sent = [getRequest
          ''https://api.financialdatasets.ai/news/?ticker=AAPL&end_date=2024-01-10&limit=2''
          []], slept = []\<rparr>)"
proof -
  note claim = pagination_stop_conditions [where w = pagedWorld and dec = fixtureDecoders
      and ticker = "''AAPL''" and apiKey = "[]" and start = "''2024-01-01''" and limit = 2
      and st = "tradesState 0" and nst = "newsState 2" and n = 0 and endDate = "''2024-01-10''"
      and fxStart = noEffects
      and page = "[filing ''2024-01-05T09:00:00'', filing ''2024-01-04'']"
      and fx' = "\<lparr>sent = [tradesLTE ''2024-01-10''], slept = []\<rparr>"
      and npage = "[]"
      and nfx' = "\<lparr>sent = [newsLTE ''2024-01-10'', newsLTE ''2024-01-04'', newsLTE ''2024-01-02''],
        slept = []\<rparr>"]
  have trades: "fetchPage pagedWorld (decodeInsiderTrades fixtureDecoders) ''AAPL''
      (apiHeaders pagedWorld [])
      (insiderTradesURL ''AAPL'' (Some ''2024-01-01'') ''none'' (if (2 :: int) = 0 then 1000 else 2)
         (currentEndDate (tradesState 0))) (effs (tradesState 0)) =
      (Inr [filing ''2024-01-05T09:00:00'', filing ''2024-01-04''],
       \<lparr>sent = [tradesLTE ''2024-01-10''], slept = []\<rparr>)"
    by (simp add: fixture_simps)
  have news: "fetchPage pagedWorld (decodeNews fixtureDecoders) ''AAPL''
      (apiHeaders pagedWorld [])
      (newsURL ''AAPL'' (Some ''2024-01-01'') ''none'' (if (2 :: int) = 0 then 1000 else 2)
         (currentEndDate (newsState 2))) (effs (newsState 2)) =
      (Inr [],
       \<lparr>sent = [newsLTE ''2024-01-10'', newsLTE ''2024-01-04'', newsLTE ''2024-01-02''],
        slept = []\<rparr>)"
    by (simp add: fixture_simps)
  from claim [THEN conjunct1, rule_format, OF trades]
  have 1: "insiderTradesStep pagedWorld fixtureDecoders ''AAPL'' (Some ''2024-01-01'') 2 []
      (tradesState 0) = Continue (tradesState 1)"
    by (simp add: FilingDate_filing dateOnly_def tradesState_def noEffects_def)
  from claim [THEN conjunct2, THEN conjunct1, rule_format, OF news]
  have 2: "companyNewsStep pagedWorld fixtureDecoders ''AAPL'' (Some ''2024-01-01'') 2 []
      (newsState 2) = Stop (Inr (allRecords (newsState 2)))
       \<lparr>sent = [newsLTE ''2024-01-10'', newsLTE ''2024-01-04'', newsLTE ''2024-01-02''],
        slept = []\<rparr>"
    by simp
  from claim [THEN conjunct2, THEN conjunct2, THEN conjunct1]
  have 3: "GetInsiderTrades 1 pagedWorld fixtureDecoders ''AAPL'' ''2024-01-10'' None 2 [] noEffects =
     Some (Inr [filing ''2024-01-05T09:00:00'', filing ''2024-01-04''],
       \<lparr>sent = [getRequest
          ''https://api.financialdatasets.ai/insider-trades/?ticker=AAPL&filing_date_lte=2024-01-10&limit=2''
          []], slept = []\<rparr>)"
    by (simp add: fetchPage_pagedWorld apiHeaders_pagedWorld showInt_2 noEffects_def
        fixtureDecoders_def)
  from claim [THEN conjunct2, THEN conjunct2, THEN conjunct2]
  have 4: "GetCompanyNews 1 pagedWorld fixtureDecoders ''AAPL'' ''2024-01-10'' None 2 [] noEffects =
     Some (Inr [article ''2024-01-05T09:00:00'', article ''2024-01-04''],
       \<lparr>sent = [getRequest
          ''https://api.financialdatasets.ai/news/?ticker=AAPL&end_date=2024-01-10&limit=2''
          []], slept = []\<rparr>)"
    by (simp add: fetchPage_pagedWorld apiHeaders_pagedWorld showInt_2 noEffects_def
        fixtureDecoders_def)
  from 1 2 3 4 show ?thesis by blast
qed

text \<open>
  Claim C8: in bounded mode, if every page that lets the loop go on has a new cursor
  strictly older than the cursor it was requested with, the call returns after finitely
  many iterations; and an empty page ends the loop in the iteration that fetched it,
  with the records collected so far. Cursors are compared as strings, as the code does;
  the dates the server sends are taken to have a bounded length \<open>N\<close> (ten characters for
  \<^verbatim>\<open>2006-01-02\<close>). Both hold for \<^verbatim>\<open>GetInsiderTrades\<close> and for \<^verbatim>\<open>GetCompanyNews\<close>.
\<close>

theorem pagination_terminates_when_dates_decrease:
  "((\<forall>k st page fx'.
        insiderTradesRun k w dec ticker endDate (Some start) limit apiKey fxStart = Continue st \<longrightarrow>
        fetchPage w (decodeInsiderTrades dec) ticker (apiHeaders w apiKey)
          (insiderTradesURL ticker (Some start) ''none'' (if limit = 0 then 1000 else limit)
             (currentEndDate st)) (effs st) = (Inr page, fx') \<longrightarrow>
        page \<noteq> [] \<longrightarrow>
        dateOnly (Min (FilingDate ` set page)) < currentEndDate st \<and>
        length (dateOnly (Min (FilingDate ` set page))) \<le> N) \<longrightarrow>
      (\<exists>n y. GetInsiderTrades n w dec ticker endDate (Some start) limit apiKey fxStart = Some y)) \<and>
   ((\<forall>k st page fx'.
        companyNewsRun k w dec ticker endDate (Some start) limit apiKey fxStart = Continue st \<longrightarrow>
        fetchPage w (decodeNews dec) ticker (apiHeaders w apiKey)
          (newsURL ticker (Some start) ''none'' (if limit = 0 then 1000 else limit)
             (currentEndDate st)) (effs st) = (Inr page, fx') \<longrightarrow>
        page \<noteq> [] \<longrightarrow>
        dateOnly (Min (DateTime ` set page)) < currentEndDate st \<and>
        length (dateOnly (Min (DateTime ` set page))) \<le> N) \<longrightarrow>
      (\<exists>n y. GetCompanyNews n w dec ticker endDate (Some start) limit apiKey fxStart = Some y)) \<and>
   (insiderTradesRun k w dec ticker endDate (Some start) limit apiKey fxStart = Continue st \<longrightarrow>
      fetchPage w (decodeInsiderTrades dec) ticker (apiHeaders w apiKey)
        (insiderTradesURL ticker (Some start) ''none'' (if limit = 0 then 1000 else limit)
           (currentEndDate st)) (effs st) = (Inr [], fx') \<longrightarrow>
      GetInsiderTrades (Suc k) w dec ticker endDate (Some start) limit apiKey fxStart =
        Some (Inr (allRecords st), fx')) \<and>
   (companyNewsRun k w dec ticker endDate (Some start) limit apiKey fxStart = Continue nst \<longrightarrow>
      fetchPage w (decodeNews dec) ticker (apiHeaders w apiKey)
        (newsURL ticker (Some start) ''none'' (if limit = 0 then 1000 else limit)
           (currentEndDate nst)) (effs nst) = (Inr [], nfx') \<longrightarrow>
      GetCompanyNews (Suc k) w dec ticker endDate (Some start) limit apiKey fxStart =
        Some (Inr (allRecords nst), nfx'))"
proof (intro conjI impI)
  assume "\<forall>k st page fx'.
        insiderTradesRun k w dec ticker endDate (Some start) limit apiKey fxStart = Continue st \<longrightarrow>
        fetchPage w (decodeInsiderTrades dec) ticker (apiHeaders w apiKey)
          (insiderTradesURL ticker (Some start) ''none'' (if limit = 0 then 1000 else limit)
             (currentEndDate st)) (effs st) = (Inr page, fx') \<longrightarrow>
        page \<noteq> [] \<longrightarrow>
        dateOnly (Min (FilingDate ` set page)) < currentEndDate st \<and>
        length (dateOnly (Min (FilingDate ` set page))) \<le> N"
  then show "\<exists>n y. GetInsiderTrades n w dec ticker endDate (Some start) limit apiKey fxStart = Some y"
    unfolding GetInsiderTrades_def insiderTradesRun_def insiderTradesStep_def Let_def
    by (simp only: option.simps if_False) (rule pagination_terminates)
next
  assume "\<forall>k st page fx'.
        companyNewsRun k w dec ticker endDate (Some start) limit apiKey fxStart = Continue st \<longrightarrow>
        fetchPage w (decodeNews dec) ticker (apiHeaders w apiKey)
          (newsURL ticker (Some start) ''none'' (if limit = 0 then 1000 else limit)
             (currentEndDate st)) (effs st) = (Inr page, fx') \<longrightarrow>
        page \<noteq> [] \<longrightarrow>
        dateOnly (Min (DateTime ` set page)) < currentEndDate st \<and>
        length (dateOnly (Min (DateTime ` set page))) \<le> N"
  then show "\<exists>n y. GetCompanyNews n w dec ticker endDate (Some start) limit apiKey fxStart = Some y"
    unfolding GetCompanyNews_def companyNewsRun_def companyNewsStep_def Let_def
    by (simp only: option.simps if_False) (rule pagination_terminates)
next
  assume "insiderTradesRun k w dec ticker endDate (Some start) limit apiKey fxStart = Continue st"
    and "fetchPage w (decodeInsiderTrades dec) ticker (apiHeaders w apiKey)
        (insiderTradesURL ticker (Some start) ''none'' (if limit = 0 then 1000 else limit)
           (currentEndDate st)) (effs st) = (Inr [], fx')"
  then show "GetInsiderTrades (Suc k) w dec ticker endDate (Some start) limit apiKey fxStart =
        Some (Inr (allRecords st), fx')"
    unfolding GetInsiderTrades_def insiderTradesRun_def insiderTradesStep_def Let_def
    by (simp only: option.simps if_False) (rule pageLoop_empty_page)
next
  assume "companyNewsRun k w dec ticker endDate (Some start) limit apiKey fxStart = Continue nst"
    and "fetchPage w (decodeNews dec) ticker (apiHeaders w apiKey)
        (newsURL ticker (Some start) ''none'' (if limit = 0 then 1000 else limit)
           (currentEndDate nst)) (effs nst) = (Inr [], nfx')"
  then show "GetCompanyNews (Suc k) w dec ticker endDate (Some start) limit apiKey fxStart =
        Some (Inr (allRecords nst), nfx')"
    unfolding GetCompanyNews_def companyNewsRun_def companyNewsStep_def Let_def
    by (simp only: option.simps if_False) (rule pageLoop_empty_page)
qed

theorem pagination_terminates_when_dates_decrease_witness:
  "(\<exists>n y. GetInsiderTrades n pagedWorld fixtureDecoders ''AAPL'' ''2024-01-10''
       (Some ''2024-01-01'') 2 [] noEffects = Some y) \<and>
   (\<exists>n y. GetCompanyNews n pagedWorld fixtureDecoders ''AAPL'' ''2024-01-10''
       (Some ''2024-01-01'') 2 [] noEffects = Some y) \<and>
   GetInsiderTrades 3 pagedWorld fixtureDecoders ''AAPL'' ''2024-01-10''
       (Some ''2024-01-01'') 2 [] noEffects =
     Some (Inr [filing ''2024-01-05T09:00:00'', filing ''2024-01-04'', filing ''2024-01-03'',
                filing ''2024-01-02''],
       \<lparr>sent = [tradesLTE ''2024-01-10'', tradesLTE ''2024-01-04'', tradesLTE ''2024-01-02''],
        slept = []\<rparr>) \<and>
   GetCompanyNews 3 pagedWorld fixtureDecoders ''AAPL'' ''2024-01-10''
       (Some ''2024-01-01'') 2 [] noEffects =
     Some (Inr [article ''2024-01-05T09:00:00'', article ''2024-01-04'', article ''2024-01-03'',
                article ''2024-01-02''],
       \<lparr>sent = [newsLTE ''2024-01-10'', newsLTE ''2024-01-04'', newsLTE ''2024-01-02''],
        slept = []\<rparr>)"
proof -
  note claim = pagination_terminates_when_dates_decrease [where w = pagedWorld
      and dec = fixtureDecoders and ticker = "''AAPL''" and apiKey = "[]"
      and start = "''2024-01-01''" and limit = 2 and endDate = "''2024-01-10''"
      and fxStart = noEffects and N = 10 and k = 2
      and st = "tradesState 2" and nst = "newsState 2"
      and fx' = "\<lparr>sent = [tradesLTE ''2024-01-10'', tradesLTE ''2024-01-04'',
        tradesLTE ''2024-01-02''], slept = []\<rparr>"
      and nfx' = "\<lparr>sent = [newsLTE ''2024-01-10'', newsLTE ''2024-01-04'', newsLTE ''2024-01-02''],
        slept = []\<rparr>"]
  have run_trades: "insiderTradesRun 2 pagedWorld fixtureDecoders ''AAPL'' ''2024-01-10''
      (Some ''2024-01-01'') 2 [] noEffects = Continue (tradesState 2)"
    by (simp add: tradesRun_fixture)
  have run_news: "companyNewsRun 2 pagedWorld fixtureDecoders ''AAPL'' ''2024-01-10''
      (Some ''2024-01-01'') 2 [] noEffects = Continue (newsState 2)"
    by (simp add: newsRun_fixture)
  have empty_trades: "fetchPage pagedWorld (decodeInsiderTrades fixtureDecoders) ''AAPL''
      (apiHeaders pagedWorld [])
      (insiderTradesURL ''AAPL'' (Some ''2024-01-01'') ''none'' (if (2 :: int) = 0 then 1000 else 2)
         (currentEndDate (tradesState 2))) (effs (tradesState 2)) =
      (Inr [], \<lparr>sent = [tradesLTE ''2024-01-10'', tradesLTE ''2024-01-04'',
        tradesLTE ''2024-01-02''], slept = []\<rparr>)"
    by (simp add: fixture_simps)
  have empty_news: "fetchPage pagedWorld (decodeNews fixtureDecoders) ''AAPL''
      (apiHeaders pagedWorld [])
      (newsURL ''AAPL'' (Some ''2024-01-01'') ''none'' (if (2 :: int) = 0 then 1000 else 2)
         (currentEndDate (newsState 2))) (effs (newsState 2)) =
      (Inr [], \<lparr>sent = [newsLTE ''2024-01-10'', newsLTE ''2024-01-04'', newsLTE ''2024-01-02''],
        slept = []\<rparr>)"
    by (simp add: fixture_simps)
  from claim [THEN conjunct1, THEN mp, OF older_trades_fixture]
  have 1: "\<exists>n y. GetInsiderTrades n pagedWorld fixtureDecoders ''AAPL'' ''2024-01-10''
       (Some ''2024-01-01'') 2 [] noEffects = Some y" .
  from claim [THEN conjunct2, THEN conjunct1, THEN mp, OF older_news_fixture]
  have 2: "\<exists>n y. GetCompanyNews n pagedWorld fixtureDecoders ''AAPL'' ''2024-01-10''
       (Some ''2024-01-01'') 2 [] noEffects = Some y" .
  from claim [THEN conjunct2, THEN conjunct2, THEN conjunct1, rule_format, OF run_trades empty_trades]
  have 3: "GetInsiderTrades 3 pagedWorld fixtureDecoders ''AAPL'' ''2024-01-10''
       (Some ''2024-01-01'') 2 [] noEffects =
     Some (Inr [filing ''2024-01-05T09:00:00'', filing ''2024-01-04'', filing ''2024-01-03'',
                filing ''2024-01-02''],
       \<lparr>sent = [tradesLTE ''2024-01-10'', tradesLTE ''2024-01-04'', tradesLTE ''2024-01-02''],
        slept = []\<rparr>)"
    by (simp add: tradesState_def numeral_3_eq_3)
  from claim [THEN conjunct2, THEN conjunct2, THEN conjunct2, rule_format, OF run_news empty_news]
  have 4: "GetCompanyNews 3 pagedWorld fixtureDecoders ''AAPL'' ''2024-01-10''
       (Some ''2024-01-01'') 2 [] noEffects =
     Some (Inr [article ''2024-01-05T09:00:00'', article ''2024-01-04'', article ''2024-01-03'',
                article ''2024-01-02''],
       \<lparr>sent = [newsLTE ''2024-01-10'', newsLTE ''2024-01-04'', newsLTE ''2024-01-02''],
        slept = []\<rparr>)"
    by (simp add: newsState_def numeral_3_eq_3)
  from 1 2 3 4 show ?thesis by blast
qed

text \<open>
  Claim C10: when a start date is given, every request the two aggregators issue, in
  any number of iterations, is the GET of a URL whose start-date parameter is the
  literal "none" (\<^verbatim>\<open>filing_date_gte=none\<close>, \<^verbatim>\<open>start_date=none\<close>), with the API-key header
  only: the start date the caller gave is in no request. (It is compared with the cursor
  in the stop condition of claim C7.)
\<close>

theorem start_date_sent_as_none:
  "(\<exists>new. sent (effectsOf (insiderTradesRun n w dec ticker endDate (Some start) limit apiKey fxStart)) =
            sent fxStart @ new \<and>
      (\<forall>r\<in>set new. \<exists>c. r = getRequest
          (''https://api.financialdatasets.ai/insider-trades/?ticker='' @ ticker @
           ''&filing_date_lte='' @ c @ ''&filing_date_gte=none'' @ ''&limit='' @
           showInt (if limit = 0 then 1000 else limit)) (apiHeaders w apiKey))) \<and>
   (\<exists>new. sent (effectsOf (companyNewsRun n w dec ticker endDate (Some start) limit apiKey fxStart)) =
            sent fxStart @ new \<and>
      (\<forall>r\<in>set new. \<exists>c. r = getRequest
          (''https://api.financialdatasets.ai/news/?ticker='' @ ticker @
           ''&end_date='' @ c @ ''&start_date=none'' @ ''&limit='' @
           showInt (if limit = 0 then 1000 else limit)) (apiHeaders w apiKey)))"
proof
  let ?lim = "if limit = 0 then 1000 else limit"
  from pageLoop_sent [of w "decodeInsiderTrades dec" FilingDate
      "insiderTradesURL ticker (Some start) ''none'' ?lim" ticker "apiHeaders w apiKey"
      "Some start" ?lim n "\<lparr>effs = fxStart, currentEndDate = endDate, allRecords = []\<rparr>"]
  show "\<exists>new. sent (effectsOf (insiderTradesRun n w dec ticker endDate (Some start) limit apiKey fxStart)) =
            sent fxStart @ new \<and>
      (\<forall>r\<in>set new. \<exists>c. r = getRequest
          (''https://api.financialdatasets.ai/insider-trades/?ticker='' @ ticker @
           ''&filing_date_lte='' @ c @ ''&filing_date_gte=none'' @ ''&limit='' @
           showInt ?lim) (apiHeaders w apiKey))"
    by (simp add: insiderTradesRun_def insiderTradesStep_def Let_def insiderTradesURL_def)
next
  let ?lim = "if limit = 0 then 1000 else limit"
  from pageLoop_sent [of w "decodeNews dec" DateTime
      "newsURL ticker (Some start) ''none'' ?lim" ticker "apiHeaders w apiKey"
      "Some start" ?lim n "\<lparr>effs = fxStart, currentEndDate = endDate, allRecords = []\<rparr>"]
  show "\<exists>new. sent (effectsOf (companyNewsRun n w dec ticker endDate (Some start) limit apiKey fxStart)) =
            sent fxStart @ new \<and>
      (\<forall>r\<in>set new. \<exists>c. r = getRequest
          (''https://api.financialdatasets.ai/news/?ticker='' @ ticker @
           ''&end_date='' @ c @ ''&start_date=none'' @ ''&limit='' @
           showInt ?lim) (apiHeaders w apiKey))"
    by (simp add: companyNewsRun_def companyNewsStep_def Let_def newsURL_def)
qed

theorem start_date_sent_as_none_witness:
  "(\<exists>new. [getRequest
       ''https://api.financialdatasets.ai/insider-trades/?ticker=AAPL&filing_date_lte=2024-01-10&filing_date_gte=none&limit=2'' [],
      getRequest
       ''https://api.financialdatasets.ai/insider-trades/?ticker=AAPL&filing_date_lte=2024-01-04&filing_date_gte=none&limit=2'' [],
      getRequest
       ''https://api.financialdatasets.ai/insider-trades/?ticker=AAPL&filing_date_lte=2024-01-02&filing_date_gte=none&limit=2'' []] = new \<and>
     (\<forall>r\<in>set new. \<exists>c. r = getRequest
        (''https://api.financialdatasets.ai/insider-trades/?ticker=AAPL&filing_date_lte='' @ c @
         ''&filing_date_gte=none&limit=2'') [])) \<and>
   (\<exists>new. [getRequest
       ''https://api.financialdatasets.ai/news/?ticker=AAPL&end_date=2024-01-10&start_date=none&limit=2'' [],
      getRequest
       ''https://api.financialdatasets.ai/news/?ticker=AAPL&end_date=2024-01-04&start_date=none&limit=2'' [],
      getRequest
       ''https://api.financialdatasets.ai/news/?ticker=AAPL&end_date=2024-01-02&start_date=none&limit=2'' []] = new \<and>
     (\<forall>r\<in>set new. \<exists>c. r = getRequest
        (''https://api.financialdatasets.ai/news/?ticker=AAPL&end_date='' @ c @
         ''&start_date=none&limit=2'') []))"
proof -
  note claim = start_date_sent_as_none [where w = pagedWorld and dec = fixtureDecoders
      and ticker = "''AAPL''" and apiKey = "[]" and start = "''2024-01-01''" and limit = 2
      and endDate = "''2024-01-10''" and fxStart = noEffects and n = 3]
  have trades: "sent (effectsOf (insiderTradesRun 3 pagedWorld fixtureDecoders ''AAPL''
      ''2024-01-10'' (Some ''2024-01-01'') 2 [] noEffects)) =
      [tradesLTE ''2024-01-10'', tradesLTE ''2024-01-04'', tradesLTE ''2024-01-02'']"
    by (simp add: tradesRun_fixture effectsOf_def)
  have news: "sent (effectsOf (companyNewsRun 3 pagedWorld fixtureDecoders ''AAPL''
      ''2024-01-10'' (Some ''2024-01-01'') 2 [] noEffects)) =
      [newsLTE ''2024-01-10'', newsLTE ''2024-01-04'', newsLTE ''2024-01-02'']"
    by (simp add: newsRun_fixture effectsOf_def)
  from claim show ?thesis
    unfolding trades news
    by (simp add: noEffects_def apiHeaders_pagedWorld showInt_2 tradesLTE_def newsLTE_def)
qed

section \<open>Properties of the market-cap resolver\<close>

lemma showInt_10: "showInt 10 = ''10''"
  by (simp add: showInt_def digitsOf.simps)

text \<open>
  Claim C3, as the spec states it: on today's date an unreachable facts service gives
  the value 0 and no error. On the code a transport failure of the facts request is
  returned as an error; only a response with a status other than 200 gives 0.
\<close>

theorem GetMarketCap_unreachable_is_error:
  "GetMarketCap (scripted [] TransportError) capDecoders ''AAPL'' ''2024-06-01'' [] noEffects =
     (Inl (APIRequestFailed DoFailed),
      \<lparr>sent = [getRequest ''https://api.financialdatasets.ai/company/facts/?ticker=AAPL'' []],
       slept = []\<rparr>)"
proof -
  let ?w = "scripted [] TransportError :: unit world"
  let ?url = "''https://api.financialdatasets.ai/company/facts/?ticker=AAPL''"
  have "attemptLoop ?w ?url [] ''GET'' None 3 0 noEffects =
      (outcome (clientDo ?w (length (sent noEffects) + 0) (getRequest ?url [])),
       noEffects\<lparr>sent := sent noEffects @ replicate (Suc 0) (getRequest ?url []),
         slept := slept noEffects @ map (\<lambda>i. 60 + 30 * (0 + int i)) [0..<0]\<rparr>)"
    by (rule attemptLoop_run [OF buildRequest_scripted_GET])
       (simp_all add: scripted_def is429_def)
  then show ?thesis
    by (simp add: GetMarketCap_def makeAPIRequest_def apiHeaders_def scripted_def outcome_def
        noEffects_def)
qed

text \<open>
  Claim C3, amended. On today's date the resolver requests the company facts; after
  \<open>k \<le> 3\<close> replies 429 the reply that ends the retry loop decides: a response with a status
  other than 200 gives 0 and no error; a 200 response gives the facts' market cap, or
  an error when its body cannot be read or decoded; a transport failure (an unreachable
  service) gives an error. On any other date the resolver fetches the metrics with
  limit 10 and period "ttm" and returns the market cap of the first record, 0 with no
  error when the list is empty, and the error of the fetch when it fails.
\<close>

theorem GetMarketCap_resolution:
  "(endDate = todayPlus w 0 \<longrightarrow>
      newRequestOK w ''GET'' (''https://api.financialdatasets.ai/company/facts/?ticker='' @ ticker) \<longrightarrow>
      (\<forall>j<k. is429 (clientDo w (length (sent fxStart) + j)
         (getRequest (''https://api.financialdatasets.ai/company/facts/?ticker='' @ ticker)
            (apiHeaders w apiKey)))) \<longrightarrow>
      k \<le> 3 \<longrightarrow>
      \<not> (is429 (clientDo w (length (sent fxStart) + k)
         (getRequest (''https://api.financialdatasets.ai/company/facts/?ticker='' @ ticker)
            (apiHeaders w apiKey))) \<and> k < 3) \<longrightarrow>
      GetMarketCap w dec ticker endDate apiKey fxStart =
        ((case clientDo w (length (sent fxStart) + k)
            (getRequest (''https://api.financialdatasets.ai/company/facts/?ticker='' @ ticker)
               (apiHeaders w apiKey)) of
            TransportError \<Rightarrow> Inl (APIRequestFailed DoFailed)
          | Response resp \<Rightarrow>
              if StatusCode resp \<noteq> 200 then Inr 0
              else if readFails resp then Inl ReadBodyFailed
              else (case decodeCompanyFacts dec (bodyBytes resp) of
                      None \<Rightarrow> Inl DecodeFailed
                    | Some facts \<Rightarrow> Inr (MarketCap' facts))),
         fxStart\<lparr>sent := sent fxStart @ replicate (Suc k)
             (getRequest (''https://api.financialdatasets.ai/company/facts/?ticker='' @ ticker)
                (apiHeaders w apiKey)),
           slept := slept fxStart @ map (\<lambda>i. 60 + 30 * int i) [0..<k]\<rparr>)) \<and>
   (endDate \<noteq> todayPlus w 0 \<longrightarrow>
      fetchPage w (decodeFinancialMetrics dec) ticker (apiHeaders w apiKey)
        (''https://api.financialdatasets.ai/financial-metrics/?ticker='' @ ticker @
         ''&report_period_lte='' @ endDate @ ''&limit=10&period=ttm'') fxStart = (r, fx') \<longrightarrow>
      GetMarketCap w dec ticker endDate apiKey fxStart =
        ((case r of
            Inl err \<Rightarrow> Inl err
          | Inr [] \<Rightarrow> Inr 0
          | Inr (m # _) \<Rightarrow> Inr (MarketCap m)), fx'))"
proof (intro conjI impI)
  let ?url = "''https://api.financialdatasets.ai/company/facts/?ticker='' @ ticker"
  let ?req = "getRequest ?url (apiHeaders w apiKey)"
  assume today: "endDate = todayPlus w 0" and ok: "newRequestOK w ''GET'' ?url"
    and retry: "\<forall>j<k. is429 (clientDo w (length (sent fxStart) + j) ?req)"
    and k: "k \<le> 3"
    and last: "\<not> (is429 (clientDo w (length (sent fxStart) + k) ?req) \<and> k < 3)"
  from ok have build: "buildRequest w ?url (apiHeaders w apiKey) ''GET'' None = Inr ?req"
    by (simp add: buildRequest_def getRequest_def)
  have "attemptLoop w ?url (apiHeaders w apiKey) ''GET'' None 3 0 fxStart =
      (outcome (clientDo w (length (sent fxStart) + k) ?req),
       fxStart\<lparr>sent := sent fxStart @ replicate (Suc k) ?req,
         slept := slept fxStart @ map (\<lambda>i. 60 + 30 * (0 + int i)) [0..<k]\<rparr>)"
    using retry k last by (intro attemptLoop_run [OF build]) simp_all
  then show "GetMarketCap w dec ticker endDate apiKey fxStart =
        ((case clientDo w (length (sent fxStart) + k) ?req of
            TransportError \<Rightarrow> Inl (APIRequestFailed DoFailed)
          | Response resp \<Rightarrow>
              if StatusCode resp \<noteq> 200 then Inr 0
              else if readFails resp then Inl ReadBodyFailed
              else (case decodeCompanyFacts dec (bodyBytes resp) of
                      None \<Rightarrow> Inl DecodeFailed
                    | Some facts \<Rightarrow> Inr (MarketCap' facts))),
         fxStart\<lparr>sent := sent fxStart @ replicate (Suc k) ?req,
           slept := slept fxStart @ map (\<lambda>i. 60 + 30 * int i) [0..<k]\<rparr>)"
    using today
    by (simp add: GetMarketCap_def makeAPIRequest_def outcome_def
        split: reply.splits option.splits)
next
  assume "endDate \<noteq> todayPlus w 0"
    and "fetchPage w (decodeFinancialMetrics dec) ticker (apiHeaders w apiKey)
        (''https://api.financialdatasets.ai/financial-metrics/?ticker='' @ ticker @
         ''&report_period_lte='' @ endDate @ ''&limit=10&period=ttm'') fxStart = (r, fx')"
  then show "GetMarketCap w dec ticker endDate apiKey fxStart =
        ((case r of
            Inl err \<Rightarrow> Inl err
          | Inr [] \<Rightarrow> Inr 0
          | Inr (m # _) \<Rightarrow> Inr (MarketCap m)), fx')"
    by (simp add: GetMarketCap_def GetFinancialMetrics_def showInt_10
        split: sum.splits list.splits)
qed

lemma fetchPage_scripted_200:
  "fetchPage (scripted [] (plainReply 200 body)) decode ticker headers url fxStart =
     (case decode body of
        None \<Rightarrow> (Inl DecodeFailed, fxStart\<lparr>sent := sent fxStart @ [getRequest url headers]\<rparr>)
      | Some page \<Rightarrow> (Inr page, fxStart\<lparr>sent := sent fxStart @ [getRequest url headers]\<rparr>))"
proof -
  let ?w = "scripted [] (plainReply 200 body)"
  have "attemptLoop ?w url headers ''GET'' None 3 0 fxStart =
      (outcome (clientDo ?w (length (sent fxStart) + 0) (getRequest url headers)),
       fxStart\<lparr>sent := sent fxStart @ replicate (Suc 0) (getRequest url headers),
           slept := slept fxStart @ map (\<lambda>i. 60 + 30 * (0 + int i)) [0..<0]\<rparr>)"
    by (rule attemptLoop_run [OF buildRequest_scripted_GET])
       (simp_all add: scripted_def plainReply_def is429_def)
  then show ?thesis
    by (simp add: fetchPage_def makeAPIRequest_def scripted_def outcome_def plainReply_def)
qed

theorem GetMarketCap_resolution_witness:
  "GetMarketCap (scripted [] (plainReply 503 ''down'')) capDecoders ''AAPL'' ''2024-06-01'' []
       noEffects =
     (Inr 0,
      \<lparr>sent = [getRequest ''https://api.financialdatasets.ai/company/facts/?ticker=AAPL'' []],
       slept = []\<rparr>) \<and>
   GetMarketCap (scripted [plainReply 429 []] (plainReply 200 ''facts'')) capDecoders ''AAPL''
       ''2024-06-01'' [] noEffects =
     (Inr 3000,
      \<lparr>sent = [getRequest ''https://api.financialdatasets.ai/company/facts/?ticker=AAPL'' [],
               getRequest ''https://api.financialdatasets.ai/company/facts/?ticker=AAPL'' []],
       slept = [60]\<rparr>) \<and>
   GetMarketCap (scripted [] (plainReply 200 ''metrics'')) capDecoders ''AAPL'' ''2024-03-31'' []
       noEffects =
     (Inr 2500,
      \<lparr>sent = [getRequest
         ''https://api.financialdatasets.ai/financial-metrics/?ticker=AAPL&report_period_lte=2024-03-31&limit=10&period=ttm''
         []], slept = []\<rparr>) \<and>
   GetMarketCap (scripted [] (plainReply 200 ''none'')) capDecoders ''AAPL'' ''2024-03-31'' []
       noEffects =
     (Inr 0,
      \<lparr>sent = [getRequest
         ''https://api.financialdatasets.ai/financial-metrics/?ticker=AAPL&report_period_lte=2024-03-31&limit=10&period=ttm''
         []], slept = []\<rparr>)"
proof -
  let ?facts = "getRequest ''https://api.financialdatasets.ai/company/facts/?ticker=AAPL'' []"
  let ?metrics = "getRequest
     ''https://api.financialdatasets.ai/financial-metrics/?ticker=AAPL&report_period_lte=2024-03-31&limit=10&period=ttm''
     []"
  have hdr: "apiHeaders (scripted rs d) [] = []" for rs d
    by (simp add: apiHeaders_def scripted_def)
  have today: "''2024-06-01'' = todayPlus (scripted rs d) 0" for rs d
    by (simp add: scripted_def)
  have other: "''2024-03-31'' \<noteq> todayPlus (scripted rs d) 0" for rs d
    by (simp add: scripted_def)
  have ok: "newRequestOK (scripted rs d) ''GET'' u" for rs d u
    by (simp add: scripted_def)
  have 1: "GetMarketCap (scripted [] (plainReply 503 ''down'')) capDecoders ''AAPL'' ''2024-06-01''
      [] noEffects = (Inr 0, \<lparr>sent = [?facts], slept = []\<rparr>)"
    using GetMarketCap_resolution [where w = "scripted [] (plainReply 503 ''down'')"
        and dec = capDecoders and ticker = "''AAPL''" and endDate = "''2024-06-01''"
        and apiKey = "[]" and fxStart = noEffects and k = 0, THEN conjunct1, rule_format,
        OF today ok]
    by (simp add: apiHeaders_def scripted_def plainReply_def is429_def noEffects_def)
  have 2: "GetMarketCap (scripted [plainReply 429 []] (plainReply 200 ''facts'')) capDecoders
      ''AAPL'' ''2024-06-01'' [] noEffects =
      (Inr 3000, \<lparr>sent = [?facts, ?facts], slept = [60]\<rparr>)"
    using GetMarketCap_resolution [where w = "scripted [plainReply 429 []] (plainReply 200 ''facts'')"
        and dec = capDecoders and ticker = "''AAPL''" and endDate = "''2024-06-01''"
        and apiKey = "[]" and fxStart = noEffects and k = 1, THEN conjunct1, rule_format,
        OF today ok]
    by (simp add: apiHeaders_def scripted_def plainReply_def is429_def noEffects_def capDecoders_def)
  have f3: "fetchPage (scripted [] (plainReply 200 ''metrics'')) (decodeFinancialMetrics capDecoders)
      ''AAPL'' (apiHeaders (scripted [] (plainReply 200 ''metrics'')) [])
      (''https://api.financialdatasets.ai/financial-metrics/?ticker='' @ ''AAPL'' @
       ''&report_period_lte='' @ ''2024-03-31'' @ ''&limit=10&period=ttm'') noEffects =
      (Inr [\<lparr>MarketCap = 2500\<rparr>, \<lparr>MarketCap = 2400\<rparr>], \<lparr>sent = [?metrics], slept = []\<rparr>)"
    by (simp add: fetchPage_scripted_200 capDecoders_def hdr noEffects_def)
  have f4: "fetchPage (scripted [] (plainReply 200 ''none'')) (decodeFinancialMetrics capDecoders)
      ''AAPL'' (apiHeaders (scripted [] (plainReply 200 ''none'')) [])
      (''https://api.financialdatasets.ai/financial-metrics/?ticker='' @ ''AAPL'' @
       ''&report_period_lte='' @ ''2024-03-31'' @ ''&limit=10&period=ttm'') noEffects =
      (Inr [], \<lparr>sent = [?metrics], slept = []\<rparr>)"
    by (simp add: fetchPage_scripted_200 capDecoders_def hdr noEffects_def)
  have 3: "GetMarketCap (scripted [] (plainReply 200 ''metrics'')) capDecoders ''AAPL''
      ''2024-03-31'' [] noEffects = (Inr 2500, \<lparr>sent = [?metrics], slept = []\<rparr>)"
    using GetMarketCap_resolution [where w = "scripted [] (plainReply 200 ''metrics'')"
        and dec = capDecoders and ticker = "''AAPL''" and endDate = "''2024-03-31''"
        and apiKey = "[]" and fxStart = noEffects, THEN conjunct2, rule_format, OF other f3]
    by simp
  have 4: "GetMarketCap (scripted [] (plainReply 200 ''none'')) capDecoders ''AAPL''
      ''2024-03-31'' [] noEffects = (Inr 0, \<lparr>sent = [?metrics], slept = []\<rparr>)"
    using GetMarketCap_resolution [where w = "scripted [] (plainReply 200 ''none'')"
        and dec = capDecoders and ticker = "''AAPL''" and endDate = "''2024-03-31''"
        and apiKey = "[]" and fxStart = noEffects, THEN conjunct2, rule_format, OF other f4]
    by simp
  from 1 2 3 4 show ?thesis by blast
qed

section \<open>Properties of dynamic-field decoding of line items\<close>








end
